theory Spec2Isabelle
  imports Complex_Main "HOL-Library.Sublist"
begin

section \<open>Strings\<close>

text \<open>
  A JavaScript string is a sequence of UTF-16 code units. The model has the code units
  below U+0100: a \<^typ>\<open>char\<close> is the code unit of its number. That covers the serial
  pattern, which admits ASCII only, and the messages of the source (the console output,
  with its pictograms, is not modelled).

  \<open>trim\<close> removes the white space from both ends. Below U+0100 the white space is
  tab, line feed, vertical tab, form feed, carriage return, space and the no-break
  space U+00A0; the white space beyond U+00FF is outside the model.

  \<open>toUpperCase\<close> shifts \<open>a\<close>..\<open>z\<close> and the letters U+00E0..U+00FE (the division
  sign U+00F7 apart) down by 32 and turns the sharp s U+00DF into \<open>SS\<close>. The micro
  sign U+00B5 and the y with diaeresis U+00FF have their capitals beyond U+00FF: they
  are kept, and stand for these capitals, which is sound because nothing else is mapped
  to them and neither they nor their capitals are in the serial pattern.

  \<open>includes\<close> is the contiguous-substring test.
\<close>

definition js_whitespace :: "char \<Rightarrow> bool" where
  "js_whitespace c = (of_char c \<in> {9, 10, 11, 12, 13, 32, 160 :: nat})"

definition js_trim :: "string \<Rightarrow> string" where
  "js_trim s = rev (dropWhile js_whitespace (rev (dropWhile js_whitespace s)))"

definition js_upper_char :: "char \<Rightarrow> string" where
  "js_upper_char c =
     (if (97 \<le> (of_char c :: nat) \<and> (of_char c :: nat) \<le> 122)
         \<or> (224 \<le> (of_char c :: nat) \<and> (of_char c :: nat) \<le> 254
             \<and> (of_char c :: nat) \<noteq> 247)
      then [char_of ((of_char c :: nat) - 32)]
      else if (of_char c :: nat) = 223 then ''SS''
      else [c])"

definition js_toUpperCase :: "string \<Rightarrow> string" where
  "js_toUpperCase s = concat (map js_upper_char s)"

definition js_includes :: "string \<Rightarrow> string \<Rightarrow> bool" where
  "js_includes s needle = sublist needle s"

section \<open>Data model\<close>

text \<open>
  The platform's JSON objects, with the fields the source reads. A field that may be
  missing or \<open>null\<close> is an option. Coordinates are JSON numbers, of which the source
  only tests whether they are zero, so they are reals.
\<close>

record organization =
  org_name :: string

record network =
  net_id :: string
  net_name :: string

record device =
  dev_serial :: string
  dev_name :: "string option"
  dev_model :: "string option"
  dev_tags :: "string list option"
  dev_address :: "string option"
  dev_lat :: "real option"
  dev_lng :: "real option"
  dev_floorPlanId :: "string option"
  dev_notes :: "string option"
  dev_networkId :: "string option"

record device_status =
  st_serial :: string
  st_status :: "string option"
  st_lastReportedAt :: "string option"
  st_publicIp :: "string option"
  st_lanIp :: "string option"

type_synonym radio_settings = string

record switch_port =
  port_portId :: string
  port_settings :: string

text \<open>
  An error caught by the source: \<open>error.message\<close>, and for an HTTP failure
  \<open>error.response\<close> with its status and \<open>data.errors\<close>. An error thrown by the
  source itself (\<open>new Error(msg)\<close>) and a transport failure have no response.
\<close>

record error_response =
  resp_status :: nat
  resp_errors :: "string list option"

record api_error =
  err_message :: string
  err_response :: "error_response option"

definition js_Error :: "string \<Rightarrow> api_error" where
  "js_Error msg = \<lparr>err_message = msg, err_response = None\<rparr>"

section \<open>formatErrorMessage\<close>

text \<open>
  The result is an option because \<open>errors[0]\<close> of an empty array is \<open>undefined\<close>.
\<close>

definition response_errors :: "api_error \<Rightarrow> string list option" where
  "response_errors e = (case err_response e of None \<Rightarrow> None | Some r \<Rightarrow> resp_errors r)"

definition response_status :: "api_error \<Rightarrow> nat option" where
  "response_status e = map_option resp_status (err_response e)"

definition formatErrorMessage :: "api_error \<Rightarrow> string option" where
  "formatErrorMessage e =
     (case response_errors e of
        Some errs \<Rightarrow> (case errs of [] \<Rightarrow> None | m # _ \<Rightarrow> Some m)
      | None \<Rightarrow>
          if response_status e = Some 404
          then Some ''Resource not found. Please check the serial numbers and organization access.''
          else if response_status e = Some 403
          then Some ''Access forbidden. Please check API key permissions for this organization.''
          else if response_status e = Some 429
          then Some ''Rate limit exceeded. Please try again in a moment.''
          else Some (err_message e))"

section \<open>The remote platform and the registry\<close>

text \<open>
  The registry is the \<open>Map\<close> of the constructor, as the list of its entries
  (organization id, API key) in insertion order. A client is the pair it was created
  from: it sends the key of its organization with every request.

  The platform is outside the program. It is a parameter: one response function for
  each endpoint the source calls, from the client and the arguments of the URL to an
  error or the response data. Every function of the model returns, with its result, the
  calls it issued, in order.
\<close>

record MerakiAPI =
  organizations :: "(string \<times> string) list"

type_synonym client = "string \<times> string"

record config_data =
  cfg_name :: string
  cfg_tags :: "string list option"
  cfg_address :: "string option"
  cfg_lat :: "real option"
  cfg_lng :: "real option"
  cfg_floorPlanId :: "string option"
  cfg_notes :: string

datatype request =
    GetOrganization string
  | GetOrganizationNetworks string
  | GetNetworkDevice string string
  | GetInventoryDevices string
  | GetNetwork string
  | GetDeviceStatuses string
  | GetRadioSettings string string
  | GetSwitchPorts string string
  | ClaimDevices string "string list"
  | PutDevice string string config_data
  | PutRadioSettings string string radio_settings
  | PutSwitchPort string string string string
  | RemoveDevice string string

type_synonym call = "client \<times> request"

record platform =
  getOrganization :: "client \<Rightarrow> string \<Rightarrow> api_error + organization"
  getOrganizationNetworks :: "client \<Rightarrow> string \<Rightarrow> api_error + network list"
  getNetworkDevice :: "client \<Rightarrow> string \<Rightarrow> string \<Rightarrow> api_error + device"
  getInventoryDevices :: "client \<Rightarrow> string \<Rightarrow> api_error + device list"
  getNetwork :: "client \<Rightarrow> string \<Rightarrow> api_error + network"
  getDeviceStatuses :: "client \<Rightarrow> string \<Rightarrow> api_error + device_status list"
  getRadioSettings :: "client \<Rightarrow> string \<Rightarrow> string \<Rightarrow> api_error + radio_settings"
  getSwitchPorts :: "client \<Rightarrow> string \<Rightarrow> string \<Rightarrow> api_error + switch_port list"
  claimDevices :: "client \<Rightarrow> string \<Rightarrow> string list \<Rightarrow> api_error + unit"
  putDevice :: "client \<Rightarrow> string \<Rightarrow> string \<Rightarrow> config_data \<Rightarrow> api_error + unit"
  putRadioSettings :: "client \<Rightarrow> string \<Rightarrow> string \<Rightarrow> radio_settings \<Rightarrow> api_error + unit"
  putSwitchPort :: "client \<Rightarrow> string \<Rightarrow> string \<Rightarrow> string \<Rightarrow> string \<Rightarrow> api_error + unit"
  removeDevice :: "client \<Rightarrow> string \<Rightarrow> string \<Rightarrow> api_error + unit"

definition getClient :: "MerakiAPI \<Rightarrow> string \<Rightarrow> api_error + client" where
  "getClient api organizationId =
     (case map_of (organizations api) organizationId of
        None \<Rightarrow> Inl (js_Error (''No API client configured for organization '' @ organizationId))
      | Some apiKey \<Rightarrow> Inr (organizationId, apiKey))"

section \<open>validateDevices\<close>

text \<open>
  The inner loop of the search (over the networks of one organization): a device
  response ends the loop, any error goes on to the next network. A successful response
  carries a device object, on which the truthiness test of the source is true.
\<close>

fun searchNetworks ::
  "platform \<Rightarrow> client \<Rightarrow> string \<Rightarrow> network list \<Rightarrow> (network \<times> device) option \<times> call list" where
  "searchNetworks p c failedSerial [] = (None, [])"
| "searchNetworks p c failedSerial (network # networks) =
     (case getNetworkDevice p c (net_id network) failedSerial of
        Inr d \<Rightarrow> (Some (network, d), [(c, GetNetworkDevice (net_id network) failedSerial)])
      | Inl e \<Rightarrow>
          (case searchNetworks p c failedSerial networks of
             (r, t) \<Rightarrow> (r, (c, GetNetworkDevice (net_id network) failedSerial) # t)))"

text \<open>
  What the search leaves in \<open>failedDevice\<close>, \<open>networkId\<close>,
  \<open>foundOrganizationId\<close> and \<open>foundOrganization\<close>.
\<close>

record located =
  loc_device :: device
  loc_network :: network
  loc_organizationId :: string
  loc_organization :: organization

text \<open>
  The outer loop (over the registry): an organization whose client, metadata or network
  list cannot be had is skipped.
\<close>

fun searchOrganizations ::
  "MerakiAPI \<Rightarrow> platform \<Rightarrow> string \<Rightarrow> (string \<times> string) list \<Rightarrow> located option \<times> call list" where
  "searchOrganizations api p failedSerial [] = (None, [])"
| "searchOrganizations api p failedSerial ((orgId, apiKey) # rest) =
     (case getClient api orgId of
        Inl e \<Rightarrow> searchOrganizations api p failedSerial rest
      | Inr c \<Rightarrow>
          (case getOrganization p c orgId of
             Inl e \<Rightarrow>
               (case searchOrganizations api p failedSerial rest of
                  (r, t) \<Rightarrow> (r, (c, GetOrganization orgId) # t))
           | Inr organization \<Rightarrow>
               (case getOrganizationNetworks p c orgId of
                  Inl e \<Rightarrow>
                    (case searchOrganizations api p failedSerial rest of
                       (r, t) \<Rightarrow>
                         (r, (c, GetOrganization orgId) # (c, GetOrganizationNetworks orgId) # t))
                | Inr networks \<Rightarrow>
                    (case searchNetworks p c failedSerial networks of
                       (Some (network, d), t1) \<Rightarrow>
                         (Some \<lparr>loc_device = d, loc_network = network,
                                 loc_organizationId = orgId, loc_organization = organization\<rparr>,
                          (c, GetOrganization orgId) # (c, GetOrganizationNetworks orgId) # t1)
                     | (None, t1) \<Rightarrow>
                         (case searchOrganizations api p failedSerial rest of
                            (r, t) \<Rightarrow>
                              (r, (c, GetOrganization orgId)
                                    # (c, GetOrganizationNetworks orgId) # t1 @ t))))))"

fun js_join :: "string \<Rightarrow> string list \<Rightarrow> string" where
  "js_join sep [] = []"
| "js_join sep [x] = x"
| "js_join sep (x # y # ys) = x @ sep @ js_join sep (y # ys)"

text \<open>\<open>a || b\<close> on an optional string: an empty string is falsy.\<close>

definition js_truthy :: "string option \<Rightarrow> bool" where
  "js_truthy v = (case v of None \<Rightarrow> False | Some s \<Rightarrow> s \<noteq> [])"

definition js_or :: "string option \<Rightarrow> string option \<Rightarrow> string option" where
  "js_or a b = (if js_truthy a then a else b)"

record failed_info =
  fi_located :: located
  fi_status :: "string option"
  fi_lastReportedAt :: "string option"
  fi_publicIp :: "string option"
  fi_lanIp :: "string option"

definition getEnhancedDeviceInfo ::
  "MerakiAPI \<Rightarrow> platform \<Rightarrow> located \<Rightarrow> string \<Rightarrow> failed_info \<times> call list" where
  "getEnhancedDeviceInfo api p dev organizationId =
     (let unenhanced = \<lparr>fi_located = dev, fi_status = None, fi_lastReportedAt = None,
                          fi_publicIp = None, fi_lanIp = None\<rparr>
      in case getClient api organizationId of
           Inl e \<Rightarrow> (unenhanced, [])
         | Inr c \<Rightarrow>
             (case getDeviceStatuses p c organizationId of
                Inl e \<Rightarrow> (unenhanced, [(c, GetDeviceStatuses organizationId)])
              | Inr statuses \<Rightarrow>
                  (let deviceStatus =
                         find (\<lambda>st. st_serial st = dev_serial (loc_device dev)) statuses
                   in (\<lparr>fi_located = dev,
                         fi_status = js_or (Option.bind deviceStatus st_status) (Some ''unknown''),
                         fi_lastReportedAt = js_or (Option.bind deviceStatus st_lastReportedAt) None,
                         fi_publicIp = js_or (Option.bind deviceStatus st_publicIp) None,
                         fi_lanIp = js_or (Option.bind deviceStatus st_lanIp) None\<rparr>,
                       [(c, GetDeviceStatuses organizationId)]))))"

text \<open>The two shapes of the object that \<open>validateDevices\<close> returns.\<close>

datatype validation =
    ValidationFailed "string option"
  | ValidationOk failed_info device string string string

fun val_success :: "validation \<Rightarrow> bool" where
  "val_success (ValidationFailed m) = False"
| "val_success (ValidationOk f r networkId organizationId organizationName) = True"

definition notFoundMessage :: "MerakiAPI \<Rightarrow> string \<Rightarrow> string" where
  "notFoundMessage api failedSerial =
     ''Failed device '' @ failedSerial
       @ '' not found in any of the configured organizations: ''
       @ js_join '', '' (map fst (organizations api))"

definition replacementNotFoundMessage :: "string \<Rightarrow> string \<Rightarrow> string" where
  "replacementNotFoundMessage replacementSerial organizationName =
     ''Replacement device '' @ replacementSerial @ '' not found in organization ''
       @ organizationName
       @ '' inventory. Device must be in the same organization as the failed device.''"

definition claimConflictMessage :: "string \<Rightarrow> string" where
  "claimConflictMessage networkName =
     ''Replacement device is already claimed by network: '' @ networkName"

text \<open>
  The guard \<open>replacementDevice.networkId && replacementDevice.networkId !== networkId\<close>:
  the network that holds the replacement device, when it is another one than the failed
  device's.
\<close>

definition claimedElsewhere :: "device \<Rightarrow> string \<Rightarrow> string option" where
  "claimedElsewhere replacementDevice networkId =
     (case dev_networkId replacementDevice of
        None \<Rightarrow> None
      | Some n \<Rightarrow> if n \<noteq> [] \<and> n \<noteq> networkId then Some n else None)"

text \<open>
  The part of \<open>validateDevices\<close> after the search. Every error, thrown by the source
  or returned by the platform, reaches the one \<open>catch\<close>, which answers
  \<open>success: false\<close> with the translated message.
\<close>

definition checkReplacement ::
  "MerakiAPI \<Rightarrow> platform \<Rightarrow> string \<Rightarrow> located \<Rightarrow> validation \<times> call list" where
  "checkReplacement api p replacementSerial found =
     (let networkId = net_id (loc_network found);
          foundOrganizationId = loc_organizationId found;
          foundOrganization = loc_organization found
      in case getClient api foundOrganizationId of
           Inl e \<Rightarrow> (ValidationFailed (formatErrorMessage e), [])
         | Inr c \<Rightarrow>
             (case getInventoryDevices p c foundOrganizationId of
                Inl e \<Rightarrow>
                  (ValidationFailed (formatErrorMessage e),
                   [(c, GetInventoryDevices foundOrganizationId)])
              | Inr inventory \<Rightarrow>
                  (case find (\<lambda>d. dev_serial d = replacementSerial) inventory of
                     None \<Rightarrow>
                       (ValidationFailed (formatErrorMessage (js_Error
                          (replacementNotFoundMessage replacementSerial
                             (org_name foundOrganization)))),
                        [(c, GetInventoryDevices foundOrganizationId)])
                   | Some replacementDevice \<Rightarrow>
                       (case claimedElsewhere replacementDevice networkId of
                          Some claimedId \<Rightarrow>
                            (case getNetwork p c claimedId of
                               Inl e \<Rightarrow>
                                 (ValidationFailed (formatErrorMessage e),
                                  [(c, GetInventoryDevices foundOrganizationId),
                                   (c, GetNetwork claimedId)])
                             | Inr claimedNetwork \<Rightarrow>
                                 (ValidationFailed (formatErrorMessage (js_Error
                                    (claimConflictMessage (net_name claimedNetwork)))),
                                  [(c, GetInventoryDevices foundOrganizationId),
                                   (c, GetNetwork claimedId)]))
                        | None \<Rightarrow>
                            (case getEnhancedDeviceInfo api p found foundOrganizationId of
                               (enhancedFailedDevice, t) \<Rightarrow>
                                 (ValidationOk enhancedFailedDevice replacementDevice networkId
                                    foundOrganizationId (org_name foundOrganization),
                                  (c, GetInventoryDevices foundOrganizationId) # t))))))"

definition validateDevices ::
  "MerakiAPI \<Rightarrow> platform \<Rightarrow> string \<Rightarrow> string \<Rightarrow> validation \<times> call list" where
  "validateDevices api p failedSerial replacementSerial =
     (case searchOrganizations api p failedSerial (organizations api) of
        (None, t) \<Rightarrow>
          (ValidationFailed (formatErrorMessage (js_Error (notFoundMessage api failedSerial))), t)
      | (Some found, t) \<Rightarrow>
          (case checkReplacement api p replacementSerial found of
             (v, t') \<Rightarrow> (v, t @ t')))"

section \<open>The validation route and the browser client\<close>

text \<open>
  The pattern \<open>/^[A-Z0-9]{4}-[A-Z0-9]{4}-[A-Z0-9]{4}$/\<close>, over a class of characters:
  the route matches it without regard to case, the browser client after upper-casing.
\<close>

definition upper_alnum :: "char \<Rightarrow> bool" where
  "upper_alnum c =
     ((65 \<le> (of_char c :: nat) \<and> (of_char c :: nat) \<le> 90)
      \<or> (48 \<le> (of_char c :: nat) \<and> (of_char c :: nat) \<le> 57))"

definition any_case_alnum :: "char \<Rightarrow> bool" where
  "any_case_alnum c =
     (upper_alnum c \<or> (97 \<le> (of_char c :: nat) \<and> (of_char c :: nat) \<le> 122))"

definition serial_pattern :: "(char \<Rightarrow> bool) \<Rightarrow> string \<Rightarrow> bool" where
  "serial_pattern cls s =
     (length s = 14
      \<and> list_all cls (take 4 s) \<and> s ! 4 = CHR ''-''
      \<and> list_all cls (take 4 (drop 5 s)) \<and> s ! 9 = CHR ''-''
      \<and> list_all cls (drop 10 s))"

record serial_body =
  body_failedSerial :: string
  body_replacementSerial :: string

text \<open>
  The middleware \<open>serialValidation\<close>: each field is trimmed in the request, then
  matched; the result is the sanitized body and the messages of the failed checks.
\<close>

definition serialValidation :: "serial_body \<Rightarrow> serial_body \<times> string list" where
  "serialValidation body =
     (let f = js_trim (body_failedSerial body); r = js_trim (body_replacementSerial body)
      in (\<lparr>body_failedSerial = f, body_replacementSerial = r\<rparr>,
          (if serial_pattern any_case_alnum f then []
           else [''Invalid failed device serial format (should be XXXX-XXXX-XXXX)''])
          @ (if serial_pattern any_case_alnum r then []
             else [''Invalid replacement device serial format (should be XXXX-XXXX-XXXX)''])))"

datatype validate_response =
    BadRequest string "string list"
  | Json validation

text \<open>
  The handler of \<open>POST /validate-devices\<close>, behind the middleware. Its answer with
  status 500 is left out: \<open>validateDevices\<close> catches every error itself.
\<close>

definition validate_devices_route ::
  "MerakiAPI \<Rightarrow> platform \<Rightarrow> serial_body \<Rightarrow> validate_response \<times> call list" where
  "validate_devices_route api p body =
     (case serialValidation body of
        (req_body, errors) \<Rightarrow>
          if errors \<noteq> [] then (BadRequest ''Validation failed'' errors, [])
          else
            (case validateDevices api p (js_toUpperCase (body_failedSerial req_body))
                    (js_toUpperCase (body_replacementSerial req_body)) of
               (result, t) \<Rightarrow> (Json result, t)))"

text \<open>
  \<open>validateDevices\<close> of the browser client (\<open>public/js/app.js\<close>), from the two input
  values: it shows an alert and sends nothing, or posts the two serials to the route.
\<close>

definition validateSerialFormat :: "string \<Rightarrow> bool" where
  "validateSerialFormat serial = serial_pattern upper_alnum (js_toUpperCase (js_trim serial))"

datatype client_outcome =
    ShowAlert string string
  | Posted validate_response

definition client_validateDevices ::
  "MerakiAPI \<Rightarrow> platform \<Rightarrow> string \<Rightarrow> string \<Rightarrow> client_outcome \<times> call list" where
  "client_validateDevices api p failedInput replacementInput =
     (let failedSerial = js_toUpperCase (js_trim failedInput);
          replacementSerial = js_toUpperCase (js_trim replacementInput)
      in if \<not> validateSerialFormat failedSerial \<or> \<not> validateSerialFormat replacementSerial
         then (ShowAlert ''Please enter valid serial numbers in XXXX-XXXX-XXXX format''
                 ''warning'', [])
         else if failedSerial = replacementSerial
         then (ShowAlert ''Failed and replacement serial numbers cannot be the same''
                 ''warning'', [])
         else
           (case validate_devices_route api p
                   \<lparr>body_failedSerial = failedSerial, body_replacementSerial = replacementSerial\<rparr> of
              (response, t) \<Rightarrow> (Posted response, t)))"

section \<open>replaceDevice\<close>

datatype status = Pending | InProgress | Completed | Failed

record operation =
  op_step :: nat
  op_message :: string
  op_status :: status
  op_timestamp :: string
  op_error :: "string option"

record summary =
  sum_failedDevice :: string
  sum_replacementDevice :: string
  sum_networkId :: string
  sum_organizationId :: string
  sum_hostnameTransferred :: string
  sum_configurationTypes :: "string list"

record replace_result =
  rr_success :: bool
  rr_message :: "string option"
  rr_operations :: "operation list"
  rr_summary :: "summary option"

text \<open>
  The payload of step 3 (\<open>configData\<close>), from the failed device's record, the two
  serials and the time stamp of the replacement note.
\<close>

definition replacementNote :: "string \<Rightarrow> string \<Rightarrow> string" where
  "replacementNote failedSerial isoNow = ''[Replaced '' @ failedSerial @ '' on '' @ isoNow @ '']''"

definition configData :: "device \<Rightarrow> string \<Rightarrow> string \<Rightarrow> string \<Rightarrow> config_data" where
  "configData failedDevice failedSerial replacementSerial isoNow =
     (let originalNotes = (case js_or (dev_notes failedDevice) (Some []) of
                             Some n \<Rightarrow> n | None \<Rightarrow> [])
      in \<lparr>cfg_name =
             (case dev_name failedDevice of
                Some n \<Rightarrow> if n \<noteq> [] \<and> js_trim n \<noteq> [] then n else replacementSerial
              | None \<Rightarrow> replacementSerial),
           cfg_tags =
             (case dev_tags failedDevice of
                Some ts \<Rightarrow> if length ts > 0 then Some ts else None
              | None \<Rightarrow> None),
           cfg_address =
             (case dev_address failedDevice of
                Some a \<Rightarrow> if a \<noteq> [] \<and> js_trim a \<noteq> [] then Some a else None
              | None \<Rightarrow> None),
           cfg_lat =
             (case (dev_lat failedDevice, dev_lng failedDevice) of
                (Some la, Some lo) \<Rightarrow> if la \<noteq> 0 \<and> lo \<noteq> 0 then Some la else None
              | _ \<Rightarrow> None),
           cfg_lng =
             (case (dev_lat failedDevice, dev_lng failedDevice) of
                (Some la, Some lo) \<Rightarrow> if la \<noteq> 0 \<and> lo \<noteq> 0 then Some lo else None
              | _ \<Rightarrow> None),
           cfg_floorPlanId =
             (if js_truthy (dev_floorPlanId failedDevice) then dev_floorPlanId failedDevice
              else None),
           cfg_notes =
             (if js_trim originalNotes \<noteq> []
              then originalNotes @ '' '' @ replacementNote failedSerial isoNow
              else replacementNote failedSerial isoNow)\<rparr>)"

text \<open>
  The four steps of the pipeline, each with the calls it issues. A step returns
  \<open>Inl\<close> the error that leaves the \<open>try\<close> block, or \<open>Inr\<close> what the later steps
  use.

  Step 1: the failed device's record, then the radio settings and the switch ports,
  both best effort (\<open>null\<close> when the call fails).
\<close>

definition fetchConfiguration ::
  "platform \<Rightarrow> client \<Rightarrow> string \<Rightarrow> string \<Rightarrow>
   (api_error + device \<times> radio_settings option \<times> switch_port list option) \<times> call list" where
  "fetchConfiguration p c networkId failedSerial =
     (case getNetworkDevice p c networkId failedSerial of
        Inl e \<Rightarrow> (Inl e, [(c, GetNetworkDevice networkId failedSerial)])
      | Inr failedDevice \<Rightarrow>
          (let radioSettings =
                 (case getRadioSettings p c networkId failedSerial of
                    Inl e \<Rightarrow> None | Inr r \<Rightarrow> Some r);
               switchPorts =
                 (case getSwitchPorts p c networkId failedSerial of
                    Inl e \<Rightarrow> None | Inr ports \<Rightarrow> Some ports)
           in (Inr (failedDevice, radioSettings, switchPorts),
               [(c, GetNetworkDevice networkId failedSerial),
                (c, GetRadioSettings networkId failedSerial),
                (c, GetSwitchPorts networkId failedSerial)])))"

text \<open>
  Step 2: the claim. The error is swallowed when the first entry of the error list of
  the response contains \<open>already claimed\<close>.
\<close>

definition alreadyClaimed :: "api_error \<Rightarrow> bool" where
  "alreadyClaimed e =
     (case response_errors e of
        Some (m # ms) \<Rightarrow> js_includes m ''already claimed''
      | _ \<Rightarrow> False)"

definition claimReplacement ::
  "platform \<Rightarrow> client \<Rightarrow> string \<Rightarrow> string \<Rightarrow> (api_error + unit) \<times> call list" where
  "claimReplacement p c networkId replacementSerial =
     (case claimDevices p c networkId [replacementSerial] of
        Inr u \<Rightarrow> (Inr (), [(c, ClaimDevices networkId [replacementSerial])])
      | Inl e \<Rightarrow>
          if alreadyClaimed e then (Inr (), [(c, ClaimDevices networkId [replacementSerial])])
          else (Inl e, [(c, ClaimDevices networkId [replacementSerial])]))"

text \<open>
  Step 3: the payload, then best effort the radio settings and the switch ports, port
  by port until one fails.
\<close>

fun applySwitchPorts ::
  "platform \<Rightarrow> client \<Rightarrow> string \<Rightarrow> string \<Rightarrow> switch_port list \<Rightarrow> call list" where
  "applySwitchPorts p c networkId replacementSerial [] = []"
| "applySwitchPorts p c networkId replacementSerial (port # ports) =
     (c, PutSwitchPort networkId replacementSerial (port_portId port) (port_settings port))
       # (case putSwitchPort p c networkId replacementSerial (port_portId port)
                 (port_settings port) of
            Inl e \<Rightarrow> []
          | Inr u \<Rightarrow> applySwitchPorts p c networkId replacementSerial ports)"

definition applyConfiguration ::
  "platform \<Rightarrow> client \<Rightarrow> string \<Rightarrow> string \<Rightarrow> config_data \<Rightarrow> radio_settings option \<Rightarrow>
   switch_port list option \<Rightarrow> (api_error + unit) \<times> call list" where
  "applyConfiguration p c networkId replacementSerial cfg radioSettings switchPorts =
     (case putDevice p c networkId replacementSerial cfg of
        Inl e \<Rightarrow> (Inl e, [(c, PutDevice networkId replacementSerial cfg)])
      | Inr u \<Rightarrow>
          (Inr (),
           (c, PutDevice networkId replacementSerial cfg)
             # (case radioSettings of
                  None \<Rightarrow> []
                | Some r \<Rightarrow> [(c, PutRadioSettings networkId replacementSerial r)])
             @ (case switchPorts of
                  None \<Rightarrow> []
                | Some ports \<Rightarrow>
                    if length ports > 0
                    then applySwitchPorts p c networkId replacementSerial ports else [])))"

text \<open>Step 4: the removal of the failed device.\<close>

definition removeFailedDevice ::
  "platform \<Rightarrow> client \<Rightarrow> string \<Rightarrow> string \<Rightarrow> (api_error + unit) \<times> call list" where
  "removeFailedDevice p c networkId failedSerial =
     (case removeDevice p c networkId failedSerial of
        Inl e \<Rightarrow> (Inl e, [(c, RemoveDevice networkId failedSerial)])
      | Inr u \<Rightarrow> (Inr (), [(c, RemoveDevice networkId failedSerial)]))"

text \<open>
  The records of the steps. \<open>stepStarted\<close> is the object pushed when step \<open>n\<close>
  begins, \<open>completeStep i\<close> the assignment \<open>operations[i].status = "completed"\<close>, and
  \<open>catchBlock\<close> the \<open>catch\<close> of \<open>replaceDevice\<close>: it marks the last record and
  answers \<open>success: false\<close>.
\<close>

definition stepStarted :: "nat \<Rightarrow> string \<Rightarrow> string \<Rightarrow> operation" where
  "stepStarted n msg isoNow =
     \<lparr>op_step = n, op_message = msg, op_status = InProgress, op_timestamp = isoNow,
      op_error = None\<rparr>"

definition completeStep :: "nat \<Rightarrow> operation list \<Rightarrow> operation list" where
  "completeStep i operations = operations[i := (operations ! i)\<lparr>op_status := Completed\<rparr>]"

definition catchBlock :: "operation list \<Rightarrow> api_error \<Rightarrow> replace_result" where
  "catchBlock operations e =
     \<lparr>rr_success = False,
      rr_message = formatErrorMessage e,
      rr_operations =
        (if length operations > 0
         then operations[length operations - 1 :=
                (operations ! (length operations - 1))
                  \<lparr>op_status := Failed, op_error := Some (err_message e)\<rparr>]
         else operations),
      rr_summary = None\<rparr>"

text \<open>
  \<open>replaceDevice\<close>. The clock is a parameter: \<open>now k\<close> is the ISO time stamp of the
  \<open>k\<close>-th reading of the run (the four pushes read 0, 1, 2 and 4, the replacement note
  reads 3). The operation recorder \<open>logOperation\<close> writes to the console and to a
  file and takes no part in the result; it is left out.
\<close>

definition replaceDevice ::
  "MerakiAPI \<Rightarrow> platform \<Rightarrow> (nat \<Rightarrow> string) \<Rightarrow> string \<Rightarrow> string \<Rightarrow> string \<Rightarrow> string \<Rightarrow>
   replace_result \<times> call list" where
  "replaceDevice api p now failedSerial replacementSerial networkId organizationId =
     (case getClient api organizationId of
        Inl e \<Rightarrow> (catchBlock [] e, [])
      | Inr c \<Rightarrow>
     (let ops1 = [stepStarted 1 ''Retrieving failed device configuration'' (now 0)]
      in case fetchConfiguration p c networkId failedSerial of
        (Inl e, t1) \<Rightarrow> (catchBlock ops1 e, t1)
      | (Inr (failedDevice, radioSettings, switchPorts), t1) \<Rightarrow>
     (let ops2 = completeStep 0 ops1
                   @ [stepStarted 2 ''Claiming replacement device to network'' (now 1)]
      in case claimReplacement p c networkId replacementSerial of
        (Inl e, t2) \<Rightarrow> (catchBlock ops2 e, t1 @ t2)
      | (Inr u, t2) \<Rightarrow>
     (let ops3 = completeStep 1 ops2
                   @ [stepStarted 3 ''Applying configuration to replacement device'' (now 2)];
          cfg = configData failedDevice failedSerial replacementSerial (now 3)
      in case applyConfiguration p c networkId replacementSerial cfg radioSettings
                switchPorts of
        (Inl e, t3) \<Rightarrow> (catchBlock ops3 e, t1 @ t2 @ t3)
      | (Inr u, t3) \<Rightarrow>
     (let ops4 = completeStep 2 ops3
                   @ [stepStarted 4 ''Removing failed device from network'' (now 4)]
      in case removeFailedDevice p c networkId failedSerial of
        (Inl e, t4) \<Rightarrow> (catchBlock ops4 e, t1 @ t2 @ t3 @ t4)
      | (Inr u, t4) \<Rightarrow>
          (\<lparr>rr_success = True,
            rr_message = Some (''Device replacement completed successfully in organization ''
                                 @ organizationId),
            rr_operations = completeStep 3 ops4,
            rr_summary = Some
              \<lparr>sum_failedDevice = failedSerial,
               sum_replacementDevice = replacementSerial,
               sum_networkId = networkId,
               sum_organizationId = organizationId,
               sum_hostnameTransferred = cfg_name cfg,
               sum_configurationTypes =
                 [''Hostname: '' @ [CHR 0x22] @ cfg_name cfg @ [CHR 0x22],
                  ''Device location and tags'']
                 @ (case radioSettings of None \<Rightarrow> [] | Some r \<Rightarrow> [''Wireless radio settings''])
                 @ (case switchPorts of None \<Rightarrow> [] | Some ports \<Rightarrow> [''Switch port settings''])\<rparr>\<rparr>,
           t1 @ t2 @ t3 @ t4))))))"

section \<open>The search, as the specification words it\<close>

text \<open>
  The locator of the specification visits the organizations in registry order and, in
  each, the networks in the order the platform lists them, until the first lookup that
  succeeds. \<open>exhaustive_scan\<close> is the sequence of calls of a search that visits
  everything: for each organization its metadata, then (when that succeeds) its network
  list, then (when that succeeds) one device lookup for each network.
  \<open>until_first P\<close> cuts a sequence right after its first element that satisfies
  \<open>P\<close>. \<open>found_by\<close> says what a match is: the located organization is in the
  registry, its metadata and network list were obtained, the located network is in that
  list, the lookup in it returned the located device, and that lookup is the last call,
  after lookups that all failed.
\<close>

fun until_first :: "('a \<Rightarrow> bool) \<Rightarrow> 'a list \<Rightarrow> 'a list" where
  "until_first P [] = []"
| "until_first P (x # xs) = (if P x then [x] else x # until_first P xs)"

definition organization_scan :: "MerakiAPI \<Rightarrow> platform \<Rightarrow> string \<Rightarrow> string \<Rightarrow> call list" where
  "organization_scan api p s orgId =
     (case getClient api orgId of
        Inl e \<Rightarrow> []
      | Inr c \<Rightarrow>
          (c, GetOrganization orgId)
            # (case getOrganization p c orgId of
                 Inl e \<Rightarrow> []
               | Inr organization \<Rightarrow>
                   (c, GetOrganizationNetworks orgId)
                     # (case getOrganizationNetworks p c orgId of
                          Inl e \<Rightarrow> []
                        | Inr networks \<Rightarrow>
                            map (\<lambda>n. (c, GetNetworkDevice (net_id n) s)) networks)))"

definition exhaustive_scan ::
  "MerakiAPI \<Rightarrow> platform \<Rightarrow> string \<Rightarrow> (string \<times> string) list \<Rightarrow> call list" where
  "exhaustive_scan api p s orgs = concat (map (\<lambda>(orgId, apiKey). organization_scan api p s orgId) orgs)"

fun lookup_succeeds :: "platform \<Rightarrow> call \<Rightarrow> bool" where
  "lookup_succeeds p (c, GetNetworkDevice n s) =
     (case getNetworkDevice p c n s of Inl e \<Rightarrow> False | Inr d \<Rightarrow> True)"
| "lookup_succeeds p (c, other) = False"

definition found_by ::
  "MerakiAPI \<Rightarrow> platform \<Rightarrow> string \<Rightarrow> (string \<times> string) list \<Rightarrow> located \<Rightarrow> call list \<Rightarrow> bool" where
  "found_by api p s orgs f t =
     (case getClient api (loc_organizationId f) of
        Inl e \<Rightarrow> False
      | Inr c \<Rightarrow>
          loc_organizationId f \<in> set (map fst orgs)
          \<and> getOrganization p c (loc_organizationId f) = Inr (loc_organization f)
          \<and> (case getOrganizationNetworks p c (loc_organizationId f) of
                Inl e \<Rightarrow> False
              | Inr nets \<Rightarrow> loc_network f \<in> set nets)
          \<and> getNetworkDevice p c (net_id (loc_network f)) s = Inr (loc_device f)
          \<and> t \<noteq> []
          \<and> last t = (c, GetNetworkDevice (net_id (loc_network f)) s)
          \<and> list_all (\<lambda>x. \<not> lookup_succeeds p x) (butlast t))"


section \<open>The pipeline, as the specification words it\<close>

text \<open>
  \<open>request_step\<close> is the step of the pipeline a request belongs to (0 for the
  requests of the validation). \<open>aborted_at k e\<close> is the abort policy of the
  specification for a run that ends in step \<open>k\<close> with the error \<open>e\<close>: the answer
  is \<open>success: false\<close> with the translated message and no summary; the operations
  are the steps 1 to \<open>k\<close>, all but the last completed and without error, the last
  failed with the message of \<open>e\<close>; the last call of the run is one of step \<open>k\<close>
  and no call belongs to a later step.
\<close>

fun request_step :: "request \<Rightarrow> nat" where
  "request_step (GetNetworkDevice n s) = 1"
| "request_step (GetRadioSettings n s) = 1"
| "request_step (GetSwitchPorts n s) = 1"
| "request_step (ClaimDevices n ss) = 2"
| "request_step (PutDevice n s cfg) = 3"
| "request_step (PutRadioSettings n s r) = 3"
| "request_step (PutSwitchPort n s i cfg) = 3"
| "request_step (RemoveDevice n s) = 4"
| "request_step other = 0"

definition aborted_at :: "nat \<Rightarrow> api_error \<Rightarrow> replace_result \<times> call list \<Rightarrow> bool" where
  "aborted_at k e run =
     (\<not> rr_success (fst run)
      \<and> rr_message (fst run) = formatErrorMessage e
      \<and> rr_summary (fst run) = None
      \<and> map op_step (rr_operations (fst run)) = [1..<Suc k]
      \<and> list_all (\<lambda>op. op_status op = Completed \<and> op_error op = None)
            (butlast (rr_operations (fst run)))
      \<and> op_status (last (rr_operations (fst run))) = Failed
      \<and> op_error (last (rr_operations (fst run))) = Some (err_message e)
      \<and> snd run \<noteq> []
      \<and> request_step (snd (last (snd run))) = k
      \<and> list_all (\<lambda>x. request_step (snd x) \<le> k) (snd run))"


text \<open>
  The invariant of the operations that \<open>replaceDevice\<close> returns: the step numbers
  count up from 1, every record but the last is completed, the last is completed when
  the run succeeded and failed when it did not, and no record is pending or in progress.
\<close>

definition wellformed_operations :: "replace_result \<Rightarrow> bool" where
  "wellformed_operations r =
     (map op_step (rr_operations r) = [1..<Suc (length (rr_operations r))]
      \<and> list_all (\<lambda>op. op_status op = Completed) (butlast (rr_operations r))
      \<and> (rr_operations r = []
          \<or> op_status (last (rr_operations r)) = (if rr_success r then Completed else Failed))
      \<and> list_all (\<lambda>op. op_status op \<noteq> Pending \<and> op_status op \<noteq> InProgress)
            (rr_operations r))"


section \<open>A concrete platform\<close>

text \<open>
  Two organizations. \<open>A\<close> has the networks \<open>N_A0\<close> and \<open>N_A1\<close>; the device
  \<open>AAAA-1111-BBBB\<close> is in \<open>N_A1\<close>; the inventory of \<open>A\<close> holds that device, the
  unclaimed \<open>CCCC-2222-DDDD\<close> and \<open>GGGG-4444-HHHH\<close>, claimed by \<open>N_A0\<close>.
  \<open>B\<close> has the network \<open>N_B1\<close> and the unclaimed \<open>EEEE-3333-FFFF\<close> in its
  inventory. No device has radio settings or switch ports, and every write succeeds.
\<close>

definition http_failure :: "nat \<Rightarrow> string \<Rightarrow> api_error" where
  "http_failure code digits =
     \<lparr>err_message = ''Request failed with status code '' @ digits,
      err_response = Some \<lparr>resp_status = code, resp_errors = None\<rparr>\<rparr>"

definition demo_api :: MerakiAPI where
  "demo_api = \<lparr>organizations = [(''A'', ''keyA''), (''B'', ''keyB'')]\<rparr>"

definition demo_failed :: device where
  "demo_failed =
     \<lparr>dev_serial = ''AAAA-1111-BBBB'', dev_name = Some ''AP-Lobby'', dev_model = Some ''MR46'',
      dev_tags = Some [''lobby''], dev_address = Some ''1 Main St'',
      dev_lat = Some 48.1, dev_lng = Some 11.5, dev_floorPlanId = None,
      dev_notes = Some ''rack 3'', dev_networkId = Some ''N_A1''\<rparr>"

definition demo_spare :: "string \<Rightarrow> string option \<Rightarrow> device" where
  "demo_spare serial claimedBy =
     \<lparr>dev_serial = serial, dev_name = None, dev_model = Some ''MR46'', dev_tags = None,
      dev_address = None, dev_lat = None, dev_lng = None, dev_floorPlanId = None,
      dev_notes = None, dev_networkId = claimedBy\<rparr>"

definition demo_platform :: platform where
  "demo_platform =
     \<lparr>getOrganization = (\<lambda>c orgId.
        if orgId = ''A'' then Inr \<lparr>org_name = ''Org A''\<rparr>
        else if orgId = ''B'' then Inr \<lparr>org_name = ''Org B''\<rparr>
        else Inl (http_failure 404 ''404'')),
      getOrganizationNetworks = (\<lambda>c orgId.
        if orgId = ''A''
        then Inr [\<lparr>net_id = ''N_A0'', net_name = ''Warehouse''\<rparr>,
                  \<lparr>net_id = ''N_A1'', net_name = ''Office''\<rparr>]
        else if orgId = ''B'' then Inr [\<lparr>net_id = ''N_B1'', net_name = ''Branch''\<rparr>]
        else Inl (http_failure 404 ''404'')),
      getNetworkDevice = (\<lambda>c networkId serial.
        if networkId = ''N_A1'' \<and> serial = ''AAAA-1111-BBBB'' then Inr demo_failed
        else Inl (http_failure 404 ''404'')),
      getInventoryDevices = (\<lambda>c orgId.
        if orgId = ''A''
        then Inr [demo_failed, demo_spare ''CCCC-2222-DDDD'' None,
                  demo_spare ''GGGG-4444-HHHH'' (Some ''N_A0'')]
        else if orgId = ''B'' then Inr [demo_spare ''EEEE-3333-FFFF'' None]
        else Inl (http_failure 404 ''404'')),
      getNetwork = (\<lambda>c networkId.
        if networkId = ''N_A0'' then Inr \<lparr>net_id = ''N_A0'', net_name = ''Warehouse''\<rparr>
        else if networkId = ''N_A1'' then Inr \<lparr>net_id = ''N_A1'', net_name = ''Office''\<rparr>
        else Inl (http_failure 404 ''404'')),
      getDeviceStatuses = (\<lambda>c orgId. Inr []),
      getRadioSettings = (\<lambda>c networkId serial. Inl (http_failure 404 ''404'')),
      getSwitchPorts = (\<lambda>c networkId serial. Inl (http_failure 404 ''404'')),
      claimDevices = (\<lambda>c networkId serials. Inr ()),
      putDevice = (\<lambda>c networkId serial cfg. Inr ()),
      putRadioSettings = (\<lambda>c networkId serial r. Inr ()),
      putSwitchPort = (\<lambda>c networkId serial portId cfg. Inr ()),
      removeDevice = (\<lambda>c networkId serial. Inr ())\<rparr>"


definition demo_found :: located where
  "demo_found =
     \<lparr>loc_device = demo_failed, loc_network = \<lparr>net_id = ''N_A1'', net_name = ''Office''\<rparr>,
      loc_organizationId = ''A'', loc_organization = \<lparr>org_name = ''Org A''\<rparr>\<rparr>"

definition demo_inventory_A :: "device list" where
  "demo_inventory_A =
     [demo_failed, demo_spare ''CCCC-2222-DDDD'' None,
      demo_spare ''GGGG-4444-HHHH'' (Some ''N_A0'')]"

definition rate_limited_platform :: platform where
  "rate_limited_platform = demo_platform\<lparr>getNetwork := (\<lambda>c networkId. Inl (http_failure 429 ''429''))\<rparr>"


definition demo_now :: "nat \<Rightarrow> string" where
  "demo_now k =
     ''2025-06-01T10:00:0''
       @ (if k = 0 then ''0'' else if k = 1 then ''1'' else if k = 2 then ''2''
          else if k = 3 then ''3'' else ''4'')
       @ ''.000Z''"

definition bad_request :: "string \<Rightarrow> api_error" where
  "bad_request detail =
     \<lparr>err_message = ''Request failed with status code 400'',
      err_response = Some \<lparr>resp_status = 400, resp_errors = Some [detail]\<rparr>\<rparr>"

definition update_rejected_platform :: platform where
  "update_rejected_platform =
     demo_platform\<lparr>putDevice := (\<lambda>c networkId serial cfg. Inl (bad_request ''Invalid address''))\<rparr>"


definition claim_error_platform :: "string \<Rightarrow> platform" where
  "claim_error_platform detail =
     demo_platform\<lparr>claimDevices := (\<lambda>c networkId serials. Inl (bad_request detail))\<rparr>"


text \<open>
  Failed devices for the payload of step 3: one whose notes are two spaces, one on the
  prime meridian whose address is three spaces, and the first replacement as it fails in
  its turn, its notes being the ones written when it replaced the first device.
\<close>

definition blank_notes_device :: device where
  "blank_notes_device = demo_failed\<lparr>dev_notes := Some ''  ''\<rparr>"

definition meridian_device :: device where
  "meridian_device =
     demo_failed\<lparr>dev_address := Some ''   '', dev_lat := Some 51.4779, dev_lng := Some 0\<rparr>"

definition second_failed_device :: device where
  "second_failed_device =
     (demo_spare ''CCCC-2222-DDDD'' (Some ''N_A1''))
       \<lparr>dev_notes := Some (cfg_notes (configData demo_failed ''AAAA-1111-BBBB''
                                     ''CCCC-2222-DDDD'' ''2025-06-01T10:00:03.000Z''))\<rparr>"


section \<open>The search stops at the first match\<close>

lemma until_first_unmatched: "\<forall>x\<in>set xs. \<not> P x \<Longrightarrow> until_first P (xs @ ys) = xs @ until_first P ys"
  by (induction xs) auto

lemma until_first_matched: "\<exists>x\<in>set xs. P x \<Longrightarrow> until_first P (xs @ ys) = until_first P xs"
  by (induction xs) auto

lemma until_first_prefix: "prefix (until_first P xs) xs"
  by (induction xs) auto

lemma until_first_all: "\<forall>x\<in>set xs. \<not> P x \<Longrightarrow> until_first P xs = xs"
  by (induction xs) auto

lemma until_first_split:
  "\<exists>x\<in>set xs. P x \<Longrightarrow> \<exists>before m. until_first P xs = before @ [m] \<and> P m \<and> (\<forall>x\<in>set before. \<not> P x)"
proof (induction xs)
  case Nil
  then show ?case by simp
next
  case (Cons a xs)
  show ?case
  proof (cases "P a")
    case True
    then have "until_first P (a # xs) = [] @ [a] \<and> P a \<and> (\<forall>x\<in>set []. \<not> P x)" by simp
    then show ?thesis by blast
  next
    case False
    with Cons obtain before m where "until_first P xs = before @ [m]" "P m" "\<forall>x\<in>set before. \<not> P x"
      by auto
    with False have "until_first P (a # xs) = (a # before) @ [m] \<and> P m \<and> (\<forall>x\<in>set (a # before). \<not> P x)"
      by simp
    then show ?thesis by blast
  qed
qed

lemma searchNetworks_trace:
  "snd (searchNetworks p c s nets)
     = until_first (lookup_succeeds p) (map (\<lambda>n. (c, GetNetworkDevice (net_id n) s)) nets)"
  by (induction nets) (auto split: sum.splits prod.splits)

lemma searchNetworks_None:
  "fst (searchNetworks p c s nets) = None \<longleftrightarrow>
     (\<forall>x\<in>set (map (\<lambda>n. (c, GetNetworkDevice (net_id n) s)) nets). \<not> lookup_succeeds p x)"
  by (induction nets) (auto split: sum.splits prod.splits)

lemma searchNetworks_Some:
  "fst (searchNetworks p c s nets) = Some (n, d) \<Longrightarrow>
     n \<in> set nets \<and> getNetworkDevice p c (net_id n) s = Inr d
     \<and> (\<exists>before. snd (searchNetworks p c s nets) = before @ [(c, GetNetworkDevice (net_id n) s)]
           \<and> (\<forall>x\<in>set before. \<not> lookup_succeeds p x))"
proof (induction nets)
  case Nil
  then show ?case by simp
next
  case (Cons a nets)
  show ?case
  proof (cases "getNetworkDevice p c (net_id a) s")
    case (Inr d')
    with Cons.prems have "n = a" "d = d'" by auto
    with Inr have "snd (searchNetworks p c s (a # nets)) = [] @ [(c, GetNetworkDevice (net_id n) s)]"
      by simp
    with Inr \<open>n = a\<close> \<open>d = d'\<close> show ?thesis by auto
  next
    case (Inl e)
    with Cons.prems have "fst (searchNetworks p c s nets) = Some (n, d)"
      by (auto split: prod.splits)
    from Cons.IH [OF this] obtain before where
      b: "n \<in> set nets" "getNetworkDevice p c (net_id n) s = Inr d"
         "snd (searchNetworks p c s nets) = before @ [(c, GetNetworkDevice (net_id n) s)]"
         "\<forall>x\<in>set before. \<not> lookup_succeeds p x"
      by blast
    from Inl b have "snd (searchNetworks p c s (a # nets))
        = ((c, GetNetworkDevice (net_id a) s) # before) @ [(c, GetNetworkDevice (net_id n) s)]
        \<and> (\<forall>x\<in>set ((c, GetNetworkDevice (net_id a) s) # before). \<not> lookup_succeeds p x)"
      by (auto split: prod.splits)
    then have "\<exists>before. snd (searchNetworks p c s (a # nets)) = before @ [(c, GetNetworkDevice (net_id n) s)]
           \<and> (\<forall>x\<in>set before. \<not> lookup_succeeds p x)"
      by blast
    with b(1,2) show ?thesis by simp
  qed
qed


lemma searchOrganizations_trace:
  "snd (searchOrganizations api p s orgs)
     = until_first (lookup_succeeds p) (exhaustive_scan api p s orgs)"
proof (induction orgs)
  case Nil
  then show ?case by (simp add: exhaustive_scan_def)
next
  case (Cons a orgs)
  obtain orgId apiKey where a: "a = (orgId, apiKey)" by (cases a)
  have split: "exhaustive_scan api p s ((orgId, apiKey) # orgs)
      = organization_scan api p s orgId @ exhaustive_scan api p s orgs"
    by (simp add: exhaustive_scan_def)
  have "snd (searchOrganizations api p s ((orgId, apiKey) # orgs))
     = until_first (lookup_succeeds p) (exhaustive_scan api p s ((orgId, apiKey) # orgs))"
  proof (cases "getClient api orgId")
    case (Inl e)
    with Cons split show ?thesis by (simp add: organization_scan_def)
  next
    case c: (Inr c)
    show ?thesis
    proof (cases "getOrganization p c orgId")
      case (Inl e)
      with Cons split c show ?thesis
        by (auto simp add: organization_scan_def split: prod.splits)
    next
      case org: (Inr organization)
      show ?thesis
      proof (cases "getOrganizationNetworks p c orgId")
        case (Inl e)
        with Cons split c org show ?thesis
          by (auto simp add: organization_scan_def split: prod.splits)
      next
        case nets: (Inr networks)
        let ?look = "map (\<lambda>n. (c, GetNetworkDevice (net_id n) s)) networks"
        have scan: "organization_scan api p s orgId
            = (c, GetOrganization orgId) # (c, GetOrganizationNetworks orgId) # ?look"
          by (simp add: organization_scan_def c org nets)
        show ?thesis
        proof (cases "fst (searchNetworks p c s networks)")
          case None
          then have un: "\<forall>x\<in>set ?look. \<not> lookup_succeeds p x"
            by (simp only: searchNetworks_None)
          then have t1: "snd (searchNetworks p c s networks) = ?look"
            by (simp only: searchNetworks_trace until_first_all)
          from un have "until_first (lookup_succeeds p) (?look @ exhaustive_scan api p s orgs)
              = ?look @ until_first (lookup_succeeds p) (exhaustive_scan api p s orgs)"
            by (rule until_first_unmatched)
          with None t1 Cons c org nets show ?thesis
            by (auto simp add: split scan split: prod.splits)
        next
          case (Some nd)
          then have "\<not> (\<forall>x\<in>set ?look. \<not> lookup_succeeds p x)"
            by (simp only: searchNetworks_None [symmetric]) simp
          then have "until_first (lookup_succeeds p) (?look @ exhaustive_scan api p s orgs)
              = until_first (lookup_succeeds p) ?look"
            by (intro until_first_matched) blast
          then have "until_first (lookup_succeeds p) (?look @ exhaustive_scan api p s orgs)
              = snd (searchNetworks p c s networks)"
            by (simp only: searchNetworks_trace)
          with Some c org nets show ?thesis
            by (auto simp add: split scan split: prod.splits)
        qed
      qed
    qed
  qed
  then show ?case by (simp only: a)
qed

lemma searchOrganizations_None:
  "fst (searchOrganizations api p s orgs) = None \<longleftrightarrow>
     (\<forall>x\<in>set (exhaustive_scan api p s orgs). \<not> lookup_succeeds p x)"
proof (induction orgs)
  case Nil
  then show ?case by (simp add: exhaustive_scan_def)
next
  case (Cons a orgs)
  obtain orgId apiKey where a: "a = (orgId, apiKey)" by (cases a)
  have split: "exhaustive_scan api p s ((orgId, apiKey) # orgs)
      = organization_scan api p s orgId @ exhaustive_scan api p s orgs"
    by (simp add: exhaustive_scan_def)
  have "fst (searchOrganizations api p s ((orgId, apiKey) # orgs)) = None \<longleftrightarrow>
     (\<forall>x\<in>set (exhaustive_scan api p s ((orgId, apiKey) # orgs)). \<not> lookup_succeeds p x)"
  proof (cases "getClient api orgId")
    case (Inl e)
    with Cons split show ?thesis by (simp add: organization_scan_def)
  next
    case c: (Inr c)
    show ?thesis
    proof (cases "getOrganization p c orgId")
      case (Inl e)
      with Cons split c show ?thesis
        by (auto simp add: organization_scan_def split: prod.splits)
    next
      case org: (Inr organization)
      show ?thesis
      proof (cases "getOrganizationNetworks p c orgId")
        case (Inl e)
        with Cons split c org show ?thesis
          by (auto simp add: organization_scan_def split: prod.splits)
      next
        case nets: (Inr networks)
        let ?look = "map (\<lambda>n. (c, GetNetworkDevice (net_id n) s)) networks"
        have scan: "organization_scan api p s orgId
            = (c, GetOrganization orgId) # (c, GetOrganizationNetworks orgId) # ?look"
          by (simp add: organization_scan_def c org nets)
        show ?thesis
        proof (cases "fst (searchNetworks p c s networks)")
          case None
          then have un: "\<forall>x\<in>set ?look. \<not> lookup_succeeds p x"
            by (simp only: searchNetworks_None)
          with None Cons c org nets show ?thesis
            by (auto simp add: split scan split: prod.splits)
        next
          case (Some nd)
          then have "\<not> (\<forall>x\<in>set ?look. \<not> lookup_succeeds p x)"
            by (simp only: searchNetworks_None [symmetric]) simp
          then have ex: "\<exists>x\<in>set ?look. lookup_succeeds p x"
            by blast
          have found: "fst (searchOrganizations api p s ((orgId, apiKey) # orgs)) \<noteq> None"
            using Some c org nets by (auto split: prod.splits)
          have "set ?look \<subseteq> set (exhaustive_scan api p s ((orgId, apiKey) # orgs))"
            by (auto simp add: split scan)
          with ex have "\<exists>x\<in>set (exhaustive_scan api p s ((orgId, apiKey) # orgs)).
              lookup_succeeds p x"
            by blast
          with found show ?thesis by blast
        qed
      qed
    qed
  qed
  then show ?case by (simp only: a)
qed


lemma found_by_iff:
  "found_by api p s orgs f t \<longleftrightarrow>
     (\<exists>c apiKey nets before.
        (loc_organizationId f, apiKey) \<in> set orgs
        \<and> getClient api (loc_organizationId f) = Inr c
        \<and> getOrganization p c (loc_organizationId f) = Inr (loc_organization f)
        \<and> getOrganizationNetworks p c (loc_organizationId f) = Inr nets
        \<and> loc_network f \<in> set nets
        \<and> getNetworkDevice p c (net_id (loc_network f)) s = Inr (loc_device f)
        \<and> t = before @ [(c, GetNetworkDevice (net_id (loc_network f)) s)]
        \<and> (\<forall>x\<in>set before. \<not> lookup_succeeds p x))"
proof
  assume l: "found_by api p s orgs f t"
  then obtain c where c: "getClient api (loc_organizationId f) = Inr c"
    by (cases "getClient api (loc_organizationId f)") (simp_all add: found_by_def)
  from l c obtain nets where
    nets: "getOrganizationNetworks p c (loc_organizationId f) = Inr nets"
    by (cases "getOrganizationNetworks p c (loc_organizationId f)") (simp_all add: found_by_def)
  from l c nets have h: "loc_organizationId f \<in> set (map fst orgs)"
      "getOrganization p c (loc_organizationId f) = Inr (loc_organization f)"
      "loc_network f \<in> set nets"
      "getNetworkDevice p c (net_id (loc_network f)) s = Inr (loc_device f)"
      "t \<noteq> []" "last t = (c, GetNetworkDevice (net_id (loc_network f)) s)"
      "list_all (\<lambda>x. \<not> lookup_succeeds p x) (butlast t)"
    by (simp_all add: found_by_def)
  from h(1) obtain apiKey where k: "(loc_organizationId f, apiKey) \<in> set orgs" by auto
  from h(5,6) have t: "t = butlast t @ [(c, GetNetworkDevice (net_id (loc_network f)) s)]"
    by (metis append_butlast_last_id)
  from h(7) have un: "\<forall>x\<in>set (butlast t). \<not> lookup_succeeds p x"
    by (simp add: list_all_iff)
  from k c h(2) nets h(3,4) t un
  show "\<exists>c apiKey nets before.
        (loc_organizationId f, apiKey) \<in> set orgs
        \<and> getClient api (loc_organizationId f) = Inr c
        \<and> getOrganization p c (loc_organizationId f) = Inr (loc_organization f)
        \<and> getOrganizationNetworks p c (loc_organizationId f) = Inr nets
        \<and> loc_network f \<in> set nets
        \<and> getNetworkDevice p c (net_id (loc_network f)) s = Inr (loc_device f)
        \<and> t = before @ [(c, GetNetworkDevice (net_id (loc_network f)) s)]
        \<and> (\<forall>x\<in>set before. \<not> lookup_succeeds p x)"
    by blast
next
  assume "\<exists>c apiKey nets before.
        (loc_organizationId f, apiKey) \<in> set orgs
        \<and> getClient api (loc_organizationId f) = Inr c
        \<and> getOrganization p c (loc_organizationId f) = Inr (loc_organization f)
        \<and> getOrganizationNetworks p c (loc_organizationId f) = Inr nets
        \<and> loc_network f \<in> set nets
        \<and> getNetworkDevice p c (net_id (loc_network f)) s = Inr (loc_device f)
        \<and> t = before @ [(c, GetNetworkDevice (net_id (loc_network f)) s)]
        \<and> (\<forall>x\<in>set before. \<not> lookup_succeeds p x)"
  then show "found_by api p s orgs f t"
    by (force simp add: found_by_def list_all_iff)
qed

lemma found_by_later:
  assumes "found_by api p s orgs f t" and "\<forall>x\<in>set pre. \<not> lookup_succeeds p x"
  shows "found_by api p s (a # orgs) f (pre @ t)"
proof -
  from assms(1) obtain c apiKey nets before where
    h: "(loc_organizationId f, apiKey) \<in> set orgs"
       "getClient api (loc_organizationId f) = Inr c"
       "getOrganization p c (loc_organizationId f) = Inr (loc_organization f)"
       "getOrganizationNetworks p c (loc_organizationId f) = Inr nets"
       "loc_network f \<in> set nets"
       "getNetworkDevice p c (net_id (loc_network f)) s = Inr (loc_device f)"
       "t = before @ [(c, GetNetworkDevice (net_id (loc_network f)) s)]"
       "\<forall>x\<in>set before. \<not> lookup_succeeds p x"
    unfolding found_by_iff by blast
  from h(1) have 1: "(loc_organizationId f, apiKey) \<in> set (a # orgs)" by simp
  from h(7) have 2: "pre @ t = (pre @ before) @ [(c, GetNetworkDevice (net_id (loc_network f)) s)]"
    by simp
  from h(8) assms(2) have 3: "\<forall>x\<in>set (pre @ before). \<not> lookup_succeeds p x" by auto
  from 1 h(2-6) 2 3 show ?thesis unfolding found_by_iff by blast
qed

lemma searchOrganizations_Some:
  "fst (searchOrganizations api p s orgs) = Some f \<Longrightarrow>
     found_by api p s orgs f (snd (searchOrganizations api p s orgs))"
proof (induction orgs)
  case Nil
  then show ?case by simp
next
  case (Cons a orgs)
  obtain orgId apiKey where a: "a = (orgId, apiKey)" by (cases a)
  from Cons.prems have prem: "fst (searchOrganizations api p s ((orgId, apiKey) # orgs)) = Some f"
    by (simp only: a)
  have "found_by api p s ((orgId, apiKey) # orgs) f
          (snd (searchOrganizations api p s ((orgId, apiKey) # orgs)))"
  proof (cases "getClient api orgId")
    case (Inl e)
    with prem have "fst (searchOrganizations api p s orgs) = Some f" by simp
    from found_by_later [OF Cons.IH [OF this], of "[]"] Inl show ?thesis by simp
  next
    case c: (Inr c)
    show ?thesis
    proof (cases "getOrganization p c orgId")
      case (Inl e)
      with prem c have "fst (searchOrganizations api p s orgs) = Some f"
        by (auto split: prod.splits)
      from found_by_later [OF Cons.IH [OF this], of "[(c, GetOrganization orgId)]"] Inl c
      show ?thesis by (auto split: prod.splits)
    next
      case org: (Inr organization)
      show ?thesis
      proof (cases "getOrganizationNetworks p c orgId")
        case (Inl e)
        with prem c org have "fst (searchOrganizations api p s orgs) = Some f"
          by (auto split: prod.splits)
        from found_by_later [OF Cons.IH [OF this],
            of "[(c, GetOrganization orgId), (c, GetOrganizationNetworks orgId)]"] Inl c org
        show ?thesis by (auto split: prod.splits)
      next
        case nets: (Inr networks)
        let ?look = "map (\<lambda>n. (c, GetNetworkDevice (net_id n) s)) networks"
        show ?thesis
        proof (cases "fst (searchNetworks p c s networks)")
          case None
          then have un: "\<forall>x\<in>set ?look. \<not> lookup_succeeds p x"
            by (simp only: searchNetworks_None)
          then have t1: "snd (searchNetworks p c s networks) = ?look"
            by (simp only: searchNetworks_trace until_first_all)
          from None prem c org nets have "fst (searchOrganizations api p s orgs) = Some f"
            by (auto split: prod.splits)
          from found_by_later [OF Cons.IH [OF this],
            of "(c, GetOrganization orgId) # (c, GetOrganizationNetworks orgId) # ?look"]
            un None t1 c org nets
          show ?thesis by (auto split: prod.splits)
        next
          case (Some nd)
          obtain n d where nd: "nd = (n, d)" by (cases nd)
          from Some nd have sn: "fst (searchNetworks p c s networks) = Some (n, d)" by simp
          from searchNetworks_Some [OF sn] obtain before where
            b: "n \<in> set networks" "getNetworkDevice p c (net_id n) s = Inr d"
               "snd (searchNetworks p c s networks) = before @ [(c, GetNetworkDevice (net_id n) s)]"
               "\<forall>x\<in>set before. \<not> lookup_succeeds p x"
            by blast
          from sn prem c org nets have f: "f = \<lparr>loc_device = d, loc_network = n,
               loc_organizationId = orgId, loc_organization = organization\<rparr>"
            by (auto split: prod.splits)
          from sn c org nets b(3) have t: "snd (searchOrganizations api p s ((orgId, apiKey) # orgs))
              = ((c, GetOrganization orgId) # (c, GetOrganizationNetworks orgId) # before)
                  @ [(c, GetNetworkDevice (net_id n) s)]"
            by (auto split: prod.splits)
          from b(4) have un: "\<forall>x\<in>set ((c, GetOrganization orgId)
              # (c, GetOrganizationNetworks orgId) # before). \<not> lookup_succeeds p x"
            by simp
          from c have cid: "c = (orgId, snd c)"
            by (auto simp add: getClient_def split: option.splits)
          show ?thesis
            unfolding found_by_iff
            apply (rule exI [of _ c], rule exI [of _ apiKey], rule exI [of _ networks])
            apply (rule exI [of _ "(c, GetOrganization orgId) # (c, GetOrganizationNetworks orgId) # before"])
            using f c org nets b(1,2) t un by simp
        qed
      qed
    qed
  qed
  then show ?case by (simp only: a)
qed


lemma until_first_subset: "set (until_first P xs) \<subseteq> set xs"
  by (induction xs) auto

text \<open>
  C2. The calls of the failed-device search are an initial segment of the exhaustive
  scan, which runs through the organizations in registry order and through the networks
  of each in platform order. When the search reports not-found, it has issued the whole
  exhaustive scan and no lookup in it succeeded. When it finds a device, the successful
  lookup is its last call and every lookup before it failed. When the serial is present
  in exactly one network of one organization (one lookup of the exhaustive scan succeeds),
  the search returns that organization and network.
\<close>

theorem searchOrganizations_first_match:
  "prefix (snd (searchOrganizations api p s (organizations api)))
          (exhaustive_scan api p s (organizations api))
   \<and> (fst (searchOrganizations api p s (organizations api)) = None \<longrightarrow>
         snd (searchOrganizations api p s (organizations api))
           = exhaustive_scan api p s (organizations api)
         \<and> (\<forall>x\<in>set (exhaustive_scan api p s (organizations api)). \<not> lookup_succeeds p x))
   \<and> (\<forall>f. fst (searchOrganizations api p s (organizations api)) = Some f \<longrightarrow>
         found_by api p s (organizations api) f
           (snd (searchOrganizations api p s (organizations api))))
   \<and> ((orgId, apiKey) \<in> set (organizations api)
        \<and> getClient api orgId = Inr c
        \<and> getOrganization p c orgId = Inr org
        \<and> getOrganizationNetworks p c orgId = Inr nets
        \<and> n \<in> set nets
        \<and> getNetworkDevice p c (net_id n) s = Inr d
        \<and> (\<forall>x\<in>set (exhaustive_scan api p s (organizations api)).
              lookup_succeeds p x \<longrightarrow> x = (c, GetNetworkDevice (net_id n) s))
       \<longrightarrow> (\<exists>f. fst (searchOrganizations api p s (organizations api)) = Some f
               \<and> loc_organizationId f = orgId \<and> loc_organization f = org
               \<and> net_id (loc_network f) = net_id n \<and> loc_device f = d))"
proof -
  let ?orgs = "organizations api"
  let ?r = "searchOrganizations api p s ?orgs"
  let ?full = "exhaustive_scan api p s ?orgs"
  have order: "prefix (snd ?r) ?full"
    by (simp only: searchOrganizations_trace until_first_prefix)
  have none: "fst ?r = None \<longrightarrow> snd ?r = ?full \<and> (\<forall>x\<in>set ?full. \<not> lookup_succeeds p x)"
    by (simp add: searchOrganizations_None searchOrganizations_trace until_first_all)
  have some: "\<forall>f. fst ?r = Some f \<longrightarrow> found_by api p s ?orgs f (snd ?r)"
    by (simp add: searchOrganizations_Some)
  have unique: "\<exists>f. fst ?r = Some f \<and> loc_organizationId f = orgId \<and> loc_organization f = org
                  \<and> net_id (loc_network f) = net_id n \<and> loc_device f = d"
    if h: "(orgId, apiKey) \<in> set ?orgs" "getClient api orgId = Inr c"
          "getOrganization p c orgId = Inr org" "getOrganizationNetworks p c orgId = Inr nets"
          "n \<in> set nets" "getNetworkDevice p c (net_id n) s = Inr d"
          "\<forall>x\<in>set ?full. lookup_succeeds p x \<longrightarrow> x = (c, GetNetworkDevice (net_id n) s)"
  proof -
    from h(2-5) have "(c, GetNetworkDevice (net_id n) s) \<in> set (organization_scan api p s orgId)"
      by (simp add: organization_scan_def)
    with h(1) have "(c, GetNetworkDevice (net_id n) s) \<in> set ?full"
      by (force simp add: exhaustive_scan_def)
    moreover from h(6) have "lookup_succeeds p (c, GetNetworkDevice (net_id n) s)" by simp
    ultimately have "fst ?r \<noteq> None"
      by (simp only: searchOrganizations_None) blast
    then obtain f where f: "fst ?r = Some f" by blast
    with some have "found_by api p s ?orgs f (snd ?r)" by blast
    then obtain c' before where
      g: "getClient api (loc_organizationId f) = Inr c'"
         "getOrganization p c' (loc_organizationId f) = Inr (loc_organization f)"
         "getNetworkDevice p c' (net_id (loc_network f)) s = Inr (loc_device f)"
         "snd ?r = before @ [(c', GetNetworkDevice (net_id (loc_network f)) s)]"
      unfolding found_by_iff by blast
    from g(4) have "(c', GetNetworkDevice (net_id (loc_network f)) s) \<in> set (snd ?r)" by simp
    with order have "(c', GetNetworkDevice (net_id (loc_network f)) s) \<in> set ?full"
      using set_mono_prefix by blast
    moreover from g(3) have "lookup_succeeds p (c', GetNetworkDevice (net_id (loc_network f)) s)"
      by simp
    ultimately have same: "(c', GetNetworkDevice (net_id (loc_network f)) s)
        = (c, GetNetworkDevice (net_id n) s)"
      using h(7) by blast
    then have c: "c' = c" and nid: "net_id (loc_network f) = net_id n" by simp_all
    from g(1) have "fst c' = loc_organizationId f"
      by (auto simp add: getClient_def split: option.splits)
    moreover from h(2) have "fst c = orgId"
      by (auto simp add: getClient_def split: option.splits)
    ultimately have oid: "loc_organizationId f = orgId" using c by simp
    from g(2) c oid h(3) have "loc_organization f = org" by simp
    moreover from g(3) c nid h(6) have "loc_device f = d" by simp
    ultimately show ?thesis using f oid nid by blast
  qed
  from order none some unique show ?thesis by blast
qed

lemma demo_scan:
  "exhaustive_scan demo_api demo_platform ''AAAA-1111-BBBB'' (organizations demo_api)
     = [((''A'', ''keyA''), GetOrganization ''A''),
        ((''A'', ''keyA''), GetOrganizationNetworks ''A''),
        ((''A'', ''keyA''), GetNetworkDevice ''N_A0'' ''AAAA-1111-BBBB''),
        ((''A'', ''keyA''), GetNetworkDevice ''N_A1'' ''AAAA-1111-BBBB''),
        ((''B'', ''keyB''), GetOrganization ''B''),
        ((''B'', ''keyB''), GetOrganizationNetworks ''B''),
        ((''B'', ''keyB''), GetNetworkDevice ''N_B1'' ''AAAA-1111-BBBB'')]"
  by (simp add: exhaustive_scan_def organization_scan_def demo_api_def demo_platform_def
        getClient_def)

lemma demo_search:
  "searchOrganizations demo_api demo_platform ''AAAA-1111-BBBB'' (organizations demo_api)
     = (Some \<lparr>loc_device = demo_failed,
              loc_network = \<lparr>net_id = ''N_A1'', net_name = ''Office''\<rparr>,
              loc_organizationId = ''A'', loc_organization = \<lparr>org_name = ''Org A''\<rparr>\<rparr>,
        [((''A'', ''keyA''), GetOrganization ''A''),
         ((''A'', ''keyA''), GetOrganizationNetworks ''A''),
         ((''A'', ''keyA''), GetNetworkDevice ''N_A0'' ''AAAA-1111-BBBB''),
         ((''A'', ''keyA''), GetNetworkDevice ''N_A1'' ''AAAA-1111-BBBB'')])"
  by (simp add: demo_api_def demo_platform_def getClient_def)

theorem searchOrganizations_first_match_witness:
  "((''A'', ''keyA'') \<in> set (organizations demo_api)
    \<and> getClient demo_api ''A'' = Inr (''A'', ''keyA'')
    \<and> getOrganization demo_platform (''A'', ''keyA'') ''A'' = Inr \<lparr>org_name = ''Org A''\<rparr>
    \<and> getNetworkDevice demo_platform (''A'', ''keyA'') ''N_A1'' ''AAAA-1111-BBBB''
        = Inr demo_failed)
   \<and> prefix (snd (searchOrganizations demo_api demo_platform ''AAAA-1111-BBBB''
                    (organizations demo_api)))
        (exhaustive_scan demo_api demo_platform ''AAAA-1111-BBBB'' (organizations demo_api))
   \<and> snd (searchOrganizations demo_api demo_platform ''AAAA-1111-BBBB''
             (organizations demo_api))
       = [((''A'', ''keyA''), GetOrganization ''A''),
          ((''A'', ''keyA''), GetOrganizationNetworks ''A''),
          ((''A'', ''keyA''), GetNetworkDevice ''N_A0'' ''AAAA-1111-BBBB''),
          ((''A'', ''keyA''), GetNetworkDevice ''N_A1'' ''AAAA-1111-BBBB'')]
   \<and> fst (searchOrganizations demo_api demo_platform ''AAAA-1111-BBBB''
            (organizations demo_api)) = Some demo_found
   \<and> found_by demo_api demo_platform ''AAAA-1111-BBBB'' (organizations demo_api) demo_found
        (snd (searchOrganizations demo_api demo_platform ''AAAA-1111-BBBB''
                (organizations demo_api)))"
proof -
  have hyp: "(''A'', ''keyA'') \<in> set (organizations demo_api)
      \<and> getClient demo_api ''A'' = Inr (''A'', ''keyA'')
      \<and> getOrganization demo_platform (''A'', ''keyA'') ''A'' = Inr \<lparr>org_name = ''Org A''\<rparr>
      \<and> getOrganizationNetworks demo_platform (''A'', ''keyA'') ''A''
          = Inr [\<lparr>net_id = ''N_A0'', net_name = ''Warehouse''\<rparr>,
                 \<lparr>net_id = ''N_A1'', net_name = ''Office''\<rparr>]
      \<and> \<lparr>net_id = ''N_A1'', net_name = ''Office''\<rparr>
          \<in> set [\<lparr>net_id = ''N_A0'', net_name = ''Warehouse''\<rparr>,
                  \<lparr>net_id = ''N_A1'', net_name = ''Office''\<rparr>]
      \<and> getNetworkDevice demo_platform (''A'', ''keyA'')
            (net_id \<lparr>net_id = ''N_A1'', net_name = ''Office''\<rparr>) ''AAAA-1111-BBBB''
          = Inr demo_failed
      \<and> (\<forall>x\<in>set (exhaustive_scan demo_api demo_platform ''AAAA-1111-BBBB''
                     (organizations demo_api)).
            lookup_succeeds demo_platform x \<longrightarrow>
            x = ((''A'', ''keyA''),
                 GetNetworkDevice (net_id \<lparr>net_id = ''N_A1'', net_name = ''Office''\<rparr>)
                   ''AAAA-1111-BBBB''))"
    by (simp add: demo_scan) (simp add: demo_api_def demo_platform_def getClient_def)
  from searchOrganizations_first_match
         [of demo_api demo_platform "''AAAA-1111-BBBB''" "''A''" "''keyA''" "(''A'', ''keyA'')"
             "\<lparr>org_name = ''Org A''\<rparr>"
             "[\<lparr>net_id = ''N_A0'', net_name = ''Warehouse''\<rparr>,
               \<lparr>net_id = ''N_A1'', net_name = ''Office''\<rparr>]"
             "\<lparr>net_id = ''N_A1'', net_name = ''Office''\<rparr>" demo_failed]
       hyp
  show ?thesis by (simp add: demo_search demo_found_def)
qed

section \<open>Identical serials\<close>

lemma demo_serial_ok:
  "serialValidation \<lparr>body_failedSerial = ''AAAA-1111-BBBB'',
      body_replacementSerial = ''AAAA-1111-BBBB''\<rparr>
     = (\<lparr>body_failedSerial = ''AAAA-1111-BBBB'', body_replacementSerial = ''AAAA-1111-BBBB''\<rparr>, [])"
  by (simp add: serialValidation_def serial_pattern_def any_case_alnum_def upper_alnum_def
        js_trim_def js_whitespace_def Let_def)

lemma demo_upper: "js_toUpperCase ''AAAA-1111-BBBB'' = ''AAAA-1111-BBBB''"
  by (simp add: js_toUpperCase_def js_upper_char_def)

text \<open>
  C1, as stated, has the request with two identical serials rejected before any remote
  call. On the server nothing compares the two serials: the request passes the
  serial-format middleware and \<open>validateDevices\<close> runs its search. Here it even
  succeeds, after six remote calls, because the failed device is in the inventory of its
  organization, claimed by its own network.
\<close>

theorem identical_serials_counterexample:
  "snd (serialValidation \<lparr>body_failedSerial = ''AAAA-1111-BBBB'',
          body_replacementSerial = ''AAAA-1111-BBBB''\<rparr>) = []
   \<and> val_success (fst (validateDevices demo_api demo_platform ''AAAA-1111-BBBB''
                          ''AAAA-1111-BBBB''))
   \<and> fst (validate_devices_route demo_api demo_platform
            \<lparr>body_failedSerial = ''AAAA-1111-BBBB'', body_replacementSerial = ''AAAA-1111-BBBB''\<rparr>)
       = Json (fst (validateDevices demo_api demo_platform ''AAAA-1111-BBBB''
                      ''AAAA-1111-BBBB''))
   \<and> snd (validate_devices_route demo_api demo_platform
            \<lparr>body_failedSerial = ''AAAA-1111-BBBB'', body_replacementSerial = ''AAAA-1111-BBBB''\<rparr>)
       = [((''A'', ''keyA''), GetOrganization ''A''),
          ((''A'', ''keyA''), GetOrganizationNetworks ''A''),
          ((''A'', ''keyA''), GetNetworkDevice ''N_A0'' ''AAAA-1111-BBBB''),
          ((''A'', ''keyA''), GetNetworkDevice ''N_A1'' ''AAAA-1111-BBBB''),
          ((''A'', ''keyA''), GetInventoryDevices ''A''),
          ((''A'', ''keyA''), GetDeviceStatuses ''A'')]"
proof -
  have v: "validateDevices demo_api demo_platform ''AAAA-1111-BBBB'' ''AAAA-1111-BBBB''
     = (ValidationOk
          \<lparr>fi_located = demo_found, fi_status = Some ''unknown'', fi_lastReportedAt = None,
             fi_publicIp = None, fi_lanIp = None\<rparr>
          demo_failed ''N_A1'' ''A'' ''Org A'',
        [((''A'', ''keyA''), GetOrganization ''A''),
         ((''A'', ''keyA''), GetOrganizationNetworks ''A''),
         ((''A'', ''keyA''), GetNetworkDevice ''N_A0'' ''AAAA-1111-BBBB''),
         ((''A'', ''keyA''), GetNetworkDevice ''N_A1'' ''AAAA-1111-BBBB''),
         ((''A'', ''keyA''), GetInventoryDevices ''A''),
         ((''A'', ''keyA''), GetDeviceStatuses ''A'')])"
    by (simp add: validateDevices_def demo_search)
       (simp add: checkReplacement_def getEnhancedDeviceInfo_def Let_def claimedElsewhere_def
          demo_api_def demo_platform_def getClient_def demo_found_def demo_failed_def
          js_or_def js_truthy_def)
  show ?thesis
    by (simp add: validate_devices_route_def demo_serial_ok demo_upper v)
qed

lemma validateDevices_starts_with_search:
  "prefix (snd (searchOrganizations api p failedSerial (organizations api)))
     (snd (validateDevices api p failedSerial replacementSerial))"
  by (auto simp add: validateDevices_def split: prod.splits option.splits)

text \<open>
  C1, amended: two identical serials are rejected by the browser client, whose
  \<open>validateDevices\<close> shows a warning and sends nothing, so that no remote call is
  issued. The server does not compare the serials: the serial-format middleware issues
  no remote request and rejects malformed serials only, and a request with well-formed
  serials, identical or not, is answered with the result of \<open>validateDevices\<close>,
  which begins with the search of the failed device.
\<close>

theorem identical_serials_rejected_by_client:
  "(js_toUpperCase (js_trim failedInput) = js_toUpperCase (js_trim replacementInput) \<longrightarrow>
      snd (client_validateDevices api p failedInput replacementInput) = []
      \<and> (if validateSerialFormat (js_toUpperCase (js_trim failedInput))
          then fst (client_validateDevices api p failedInput replacementInput)
                 = ShowAlert ''Failed and replacement serial numbers cannot be the same''
                     ''warning''
          else fst (client_validateDevices api p failedInput replacementInput)
                 = ShowAlert ''Please enter valid serial numbers in XXXX-XXXX-XXXX format''
                     ''warning''))
   \<and> (snd (serialValidation body) \<noteq> [] \<longrightarrow>
         validate_devices_route api p body
           = (BadRequest ''Validation failed'' (snd (serialValidation body)), []))
   \<and> (snd (serialValidation body) = [] \<longrightarrow>
         validate_devices_route api p body
           = (Json (fst (validateDevices api p
                      (js_toUpperCase (js_trim (body_failedSerial body)))
                      (js_toUpperCase (js_trim (body_replacementSerial body))))),
              snd (validateDevices api p
                      (js_toUpperCase (js_trim (body_failedSerial body)))
                      (js_toUpperCase (js_trim (body_replacementSerial body))))))
   \<and> prefix (snd (searchOrganizations api p serial (organizations api)))
        (snd (validateDevices api p serial serial))"
proof -
  have client: "snd (client_validateDevices api p failedInput replacementInput) = []
      \<and> (if validateSerialFormat (js_toUpperCase (js_trim failedInput))
          then fst (client_validateDevices api p failedInput replacementInput)
                 = ShowAlert ''Failed and replacement serial numbers cannot be the same''
                     ''warning''
          else fst (client_validateDevices api p failedInput replacementInput)
                 = ShowAlert ''Please enter valid serial numbers in XXXX-XXXX-XXXX format''
                     ''warning'')"
    if "js_toUpperCase (js_trim failedInput) = js_toUpperCase (js_trim replacementInput)"
    using that by (simp add: client_validateDevices_def Let_def)
  have bad: "validate_devices_route api p body
           = (BadRequest ''Validation failed'' (snd (serialValidation body)), [])"
    if "snd (serialValidation body) \<noteq> []"
    using that by (simp add: validate_devices_route_def case_prod_beta)
  have good: "validate_devices_route api p body
           = (Json (fst (validateDevices api p
                      (js_toUpperCase (js_trim (body_failedSerial body)))
                      (js_toUpperCase (js_trim (body_replacementSerial body))))),
              snd (validateDevices api p
                      (js_toUpperCase (js_trim (body_failedSerial body)))
                      (js_toUpperCase (js_trim (body_replacementSerial body)))))"
    if "snd (serialValidation body) = []"
  proof -
    have "fst (serialValidation body)
        = \<lparr>body_failedSerial = js_trim (body_failedSerial body),
           body_replacementSerial = js_trim (body_replacementSerial body)\<rparr>"
      by (simp add: serialValidation_def Let_def)
    with that show ?thesis
      by (simp add: validate_devices_route_def case_prod_beta)
  qed
  from client bad good validateDevices_starts_with_search [of api p serial serial]
  show ?thesis by blast
qed

theorem identical_serials_rejected_by_client_witness:
  "js_toUpperCase (js_trim '' aaaa-1111-bbbb'') = js_toUpperCase (js_trim ''AAAA-1111-BBBB'')
   \<and> validateSerialFormat (js_toUpperCase (js_trim '' aaaa-1111-bbbb''))
   \<and> client_validateDevices demo_api demo_platform '' aaaa-1111-bbbb'' ''AAAA-1111-BBBB''
       = (ShowAlert ''Failed and replacement serial numbers cannot be the same'' ''warning'', [])
   \<and> validate_devices_route demo_api demo_platform
         \<lparr>body_failedSerial = ''AAAA-1111'', body_replacementSerial = ''AAAA-1111''\<rparr>
       = (BadRequest ''Validation failed''
            [''Invalid failed device serial format (should be XXXX-XXXX-XXXX)'',
             ''Invalid replacement device serial format (should be XXXX-XXXX-XXXX)''], [])
   \<and> validate_devices_route demo_api demo_platform
         \<lparr>body_failedSerial = ''AAAA-1111-BBBB'', body_replacementSerial = ''AAAA-1111-BBBB''\<rparr>
       = (Json (fst (validateDevices demo_api demo_platform ''AAAA-1111-BBBB''
                       ''AAAA-1111-BBBB'')),
          snd (validateDevices demo_api demo_platform ''AAAA-1111-BBBB'' ''AAAA-1111-BBBB''))"
proof -
  have same: "js_toUpperCase (js_trim '' aaaa-1111-bbbb'') = ''AAAA-1111-BBBB''"
    "js_toUpperCase (js_trim ''AAAA-1111-BBBB'') = ''AAAA-1111-BBBB''"
    by code_simp+
  have fmt: "validateSerialFormat ''AAAA-1111-BBBB''"
    by (simp add: validateSerialFormat_def serial_pattern_def upper_alnum_def
          js_toUpperCase_def js_upper_char_def js_trim_def js_whitespace_def)
  have bad: "serialValidation \<lparr>body_failedSerial = ''AAAA-1111'',
        body_replacementSerial = ''AAAA-1111''\<rparr>
      = (\<lparr>body_failedSerial = ''AAAA-1111'', body_replacementSerial = ''AAAA-1111''\<rparr>,
         [''Invalid failed device serial format (should be XXXX-XXXX-XXXX)'',
          ''Invalid replacement device serial format (should be XXXX-XXXX-XXXX)''])"
    by (simp add: serialValidation_def serial_pattern_def js_trim_def js_whitespace_def Let_def)
  have trimmed: "js_trim ''AAAA-1111-BBBB'' = ''AAAA-1111-BBBB''"
    by (simp add: js_trim_def js_whitespace_def)
  from identical_serials_rejected_by_client
         [of "'' aaaa-1111-bbbb''" "''AAAA-1111-BBBB''" demo_api demo_platform
             "\<lparr>body_failedSerial = ''AAAA-1111'', body_replacementSerial = ''AAAA-1111''\<rparr>"]
       identical_serials_rejected_by_client
         [of "'' aaaa-1111-bbbb''" "''AAAA-1111-BBBB''" demo_api demo_platform
             "\<lparr>body_failedSerial = ''AAAA-1111-BBBB'',
               body_replacementSerial = ''AAAA-1111-BBBB''\<rparr>"]
       same fmt
  show ?thesis
    by (simp add: bad demo_serial_ok demo_upper trimmed prod_eq_iff)
qed

section \<open>Validation after the search\<close>

lemma validateDevices_found:
  assumes "fst (searchOrganizations api p failedSerial (organizations api)) = Some found"
  shows "validateDevices api p failedSerial replacementSerial
     = (fst (checkReplacement api p replacementSerial found),
        snd (searchOrganizations api p failedSerial (organizations api))
          @ snd (checkReplacement api p replacementSerial found))"
  using assms by (auto simp add: validateDevices_def split: prod.splits option.splits)

lemma demo_found_search:
  "fst (searchOrganizations demo_api demo_platform ''AAAA-1111-BBBB'' (organizations demo_api))
     = Some demo_found"
  by (simp add: demo_search demo_found_def)

lemma demo_client_A: "getClient demo_api (loc_organizationId demo_found) = Inr (''A'', ''keyA'')"
  by (simp add: demo_found_def demo_api_def getClient_def)

lemma demo_inventory:
  "getInventoryDevices demo_platform (''A'', ''keyA'') (loc_organizationId demo_found)
     = Inr demo_inventory_A"
  by (simp add: demo_found_def demo_platform_def demo_inventory_A_def)


section \<open>The replacement is sought in one inventory\<close>

lemma exhaustive_scan_no_inventory:
  "(c, GetInventoryDevices orgId) \<notin> set (exhaustive_scan api p s orgs)"
  by (auto simp add: exhaustive_scan_def organization_scan_def split: sum.splits)

lemma search_no_inventory:
  "(c, GetInventoryDevices orgId) \<notin> set (snd (searchOrganizations api p s orgs))"
  using until_first_subset [of "lookup_succeeds p" "exhaustive_scan api p s orgs"]
    exhaustive_scan_no_inventory [of c orgId api p s orgs]
  by (auto simp add: searchOrganizations_trace)

lemma checkReplacement_inventory:
  "(c, GetInventoryDevices orgId) \<in> set (snd (checkReplacement api p replacementSerial found))
     \<Longrightarrow> orgId = loc_organizationId found"
  by (auto simp add: checkReplacement_def getEnhancedDeviceInfo_def Let_def
        split: sum.splits option.splits prod.splits)

lemma checkReplacement_absent:
  assumes "getClient api (loc_organizationId found) = Inr c"
    and "getInventoryDevices p c (loc_organizationId found) = Inr inventory"
    and "replacementSerial \<notin> dev_serial ` set inventory"
  shows "fst (checkReplacement api p replacementSerial found)
     = ValidationFailed (Some (replacementNotFoundMessage replacementSerial
         (org_name (loc_organization found))))"
proof -
  from assms(3) have "find (\<lambda>d. dev_serial d = replacementSerial) inventory = None"
    by (auto simp add: find_None_iff)
  with assms(1,2) show ?thesis
    by (simp add: checkReplacement_def formatErrorMessage_def response_errors_def
          response_status_def js_Error_def)
qed

text \<open>
  C5. In a validation run whose failed device is found in an organization, every
  inventory request of the run is for that organization, and when the replacement
  serial is absent from that inventory the validation fails with the
  replacement-not-found message. Nothing is assumed of the other organizations: the
  replacement may be in the inventory of one of them, reachable or not.
\<close>

theorem replacement_sought_in_found_organization_only:
  assumes "fst (searchOrganizations api p failedSerial (organizations api)) = Some found"
  shows "(\<forall>c orgId. (c, GetInventoryDevices orgId)
              \<in> set (snd (validateDevices api p failedSerial replacementSerial))
            \<longrightarrow> orgId = loc_organizationId found)
     \<and> (\<forall>c inventory.
           getClient api (loc_organizationId found) = Inr c
           \<and> getInventoryDevices p c (loc_organizationId found) = Inr inventory
           \<and> replacementSerial \<notin> dev_serial ` set inventory
           \<longrightarrow> fst (validateDevices api p failedSerial replacementSerial)
                 = ValidationFailed (Some (replacementNotFoundMessage replacementSerial
                     (org_name (loc_organization found)))))"
proof -
  note v = validateDevices_found [OF assms, of replacementSerial]
  have "orgId = loc_organizationId found"
    if "(c, GetInventoryDevices orgId)
          \<in> set (snd (validateDevices api p failedSerial replacementSerial))" for c orgId
  proof -
    from that v have "(c, GetInventoryDevices orgId)
        \<in> set (snd (searchOrganizations api p failedSerial (organizations api)))
        \<or> (c, GetInventoryDevices orgId)
            \<in> set (snd (checkReplacement api p replacementSerial found))"
      by simp
    then show ?thesis
      using search_no_inventory checkReplacement_inventory by blast
  qed
  moreover have "fst (validateDevices api p failedSerial replacementSerial)
      = ValidationFailed (Some (replacementNotFoundMessage replacementSerial
          (org_name (loc_organization found))))"
    if "getClient api (loc_organizationId found) = Inr c"
       "getInventoryDevices p c (loc_organizationId found) = Inr inventory"
       "replacementSerial \<notin> dev_serial ` set inventory" for c inventory
    using checkReplacement_absent [OF that] v by simp
  ultimately show ?thesis by blast
qed

theorem replacement_sought_in_found_organization_only_witness:
  "fst (searchOrganizations demo_api demo_platform ''AAAA-1111-BBBB'' (organizations demo_api))
     = Some demo_found
   \<and> getInventoryDevices demo_platform (''B'', ''keyB'') ''B''
       = Inr [demo_spare ''EEEE-3333-FFFF'' None]
   \<and> ''EEEE-3333-FFFF'' \<notin> dev_serial ` set demo_inventory_A
   \<and> snd (validateDevices demo_api demo_platform ''AAAA-1111-BBBB'' ''EEEE-3333-FFFF'')
       = [((''A'', ''keyA''), GetOrganization ''A''),
          ((''A'', ''keyA''), GetOrganizationNetworks ''A''),
          ((''A'', ''keyA''), GetNetworkDevice ''N_A0'' ''AAAA-1111-BBBB''),
          ((''A'', ''keyA''), GetNetworkDevice ''N_A1'' ''AAAA-1111-BBBB''),
          ((''A'', ''keyA''), GetInventoryDevices ''A'')]
   \<and> fst (validateDevices demo_api demo_platform ''AAAA-1111-BBBB'' ''EEEE-3333-FFFF'')
       = ValidationFailed (Some (replacementNotFoundMessage ''EEEE-3333-FFFF'' ''Org A''))"
proof -
  have absent: "''EEEE-3333-FFFF'' \<notin> dev_serial ` set demo_inventory_A"
    by (simp add: demo_inventory_A_def demo_failed_def demo_spare_def)
  have other: "getInventoryDevices demo_platform (''B'', ''keyB'') ''B''
       = Inr [demo_spare ''EEEE-3333-FFFF'' None]"
    by (simp add: demo_platform_def)
  have calls: "snd (validateDevices demo_api demo_platform ''AAAA-1111-BBBB'' ''EEEE-3333-FFFF'')
       = [((''A'', ''keyA''), GetOrganization ''A''),
          ((''A'', ''keyA''), GetOrganizationNetworks ''A''),
          ((''A'', ''keyA''), GetNetworkDevice ''N_A0'' ''AAAA-1111-BBBB''),
          ((''A'', ''keyA''), GetNetworkDevice ''N_A1'' ''AAAA-1111-BBBB''),
          ((''A'', ''keyA''), GetInventoryDevices ''A'')]"
    by (simp add: validateDevices_def demo_search checkReplacement_def)
       (simp add: Let_def demo_api_def demo_platform_def getClient_def demo_failed_def
          demo_spare_def)
  from replacement_sought_in_found_organization_only
         [OF demo_found_search, of "''EEEE-3333-FFFF''"]
       demo_client_A demo_inventory absent other demo_found_search
  show ?thesis by (simp add: demo_found_def calls)
qed


section \<open>The claim-conflict check\<close>

lemma checkReplacement_present:
  assumes "getClient api (loc_organizationId found) = Inr c"
    and "getInventoryDevices p c (loc_organizationId found) = Inr inventory"
    and "find (\<lambda>d. dev_serial d = replacementSerial) inventory = Some replacementDevice"
  shows "fst (checkReplacement api p replacementSerial found)
     = (case claimedElsewhere replacementDevice (net_id (loc_network found)) of
          Some claimedId \<Rightarrow>
            (case getNetwork p c claimedId of
               Inl e \<Rightarrow> ValidationFailed (formatErrorMessage e)
             | Inr claimedNetwork \<Rightarrow>
                 ValidationFailed (Some (claimConflictMessage (net_name claimedNetwork))))
        | None \<Rightarrow>
            ValidationOk (fst (getEnhancedDeviceInfo api p found (loc_organizationId found)))
              replacementDevice (net_id (loc_network found)) (loc_organizationId found)
              (org_name (loc_organization found)))"
  using assms
  by (simp add: checkReplacement_def Let_def formatErrorMessage_def response_errors_def
        response_status_def js_Error_def case_prod_beta split: option.splits sum.splits)

text \<open>
  C8, as stated, promises the claim-conflict message whenever the replacement device is
  held by another network. The name in that message comes from one more request; on a
  platform that answers it with 429 the validation fails with the translated message of
  that failure, which names no network.
\<close>

theorem claim_conflict_message_counterexample:
  "fst (searchOrganizations demo_api rate_limited_platform ''AAAA-1111-BBBB''
          (organizations demo_api)) = Some demo_found
   \<and> getInventoryDevices rate_limited_platform (''A'', ''keyA'') ''A'' = Inr demo_inventory_A
   \<and> demo_inventory_A ! 2 = demo_spare ''GGGG-4444-HHHH'' (Some ''N_A0'')
   \<and> dev_serial (demo_spare ''GGGG-4444-HHHH'' (Some ''N_A0'')) = ''GGGG-4444-HHHH''
   \<and> dev_networkId (demo_spare ''GGGG-4444-HHHH'' (Some ''N_A0'')) = Some ''N_A0''
   \<and> net_id (loc_network demo_found) = ''N_A1''
   \<and> fst (validateDevices demo_api rate_limited_platform ''AAAA-1111-BBBB'' ''GGGG-4444-HHHH'')
       = ValidationFailed (Some ''Rate limit exceeded. Please try again in a moment.'')"
  by (simp add: validateDevices_def checkReplacement_def Let_def claimedElsewhere_def
        rate_limited_platform_def demo_api_def demo_platform_def getClient_def demo_found_def
        demo_inventory_A_def demo_failed_def demo_spare_def http_failure_def
        formatErrorMessage_def response_errors_def response_status_def)

text \<open>
  C8, amended: when the replacement device found in the inventory carries a non-empty
  network identifier other than the failed device's network, validation fails, with the
  claim-conflict message naming that network when its lookup succeeds and with the
  translated error of the lookup when it fails; when the identifier is absent, empty or
  equal to the failed device's network, the check passes and validation succeeds.
\<close>

theorem claim_conflict_check:
  assumes "fst (searchOrganizations api p failedSerial (organizations api)) = Some found"
    and "getClient api (loc_organizationId found) = Inr c"
    and "getInventoryDevices p c (loc_organizationId found) = Inr inventory"
    and "find (\<lambda>d. dev_serial d = replacementSerial) inventory = Some replacementDevice"
  shows "(\<forall>n. dev_networkId replacementDevice = Some n \<and> n \<noteq> []
              \<and> n \<noteq> net_id (loc_network found) \<longrightarrow>
            (\<forall>claimedNetwork. getNetwork p c n = Inr claimedNetwork \<longrightarrow>
               fst (validateDevices api p failedSerial replacementSerial)
                 = ValidationFailed (Some (claimConflictMessage (net_name claimedNetwork))))
            \<and> (\<forall>e. getNetwork p c n = Inl e \<longrightarrow>
                 fst (validateDevices api p failedSerial replacementSerial)
                   = ValidationFailed (formatErrorMessage e)))
     \<and> (dev_networkId replacementDevice = None \<or> dev_networkId replacementDevice = Some []
         \<or> dev_networkId replacementDevice = Some (net_id (loc_network found)) \<longrightarrow>
           val_success (fst (validateDevices api p failedSerial replacementSerial)))"
  using validateDevices_found [OF assms(1), of replacementSerial]
    checkReplacement_present [OF assms(2,3,4)]
  by (auto simp add: claimedElsewhere_def)

theorem claim_conflict_check_witness:
  "fst (searchOrganizations demo_api demo_platform ''AAAA-1111-BBBB'' (organizations demo_api))
     = Some demo_found
   \<and> find (\<lambda>d. dev_serial d = ''GGGG-4444-HHHH'') demo_inventory_A
       = Some (demo_spare ''GGGG-4444-HHHH'' (Some ''N_A0''))
   \<and> getNetwork demo_platform (''A'', ''keyA'') ''N_A0''
       = Inr \<lparr>net_id = ''N_A0'', net_name = ''Warehouse''\<rparr>
   \<and> fst (validateDevices demo_api demo_platform ''AAAA-1111-BBBB'' ''GGGG-4444-HHHH'')
       = ValidationFailed (Some (claimConflictMessage ''Warehouse''))
   \<and> find (\<lambda>d. dev_serial d = ''CCCC-2222-DDDD'') demo_inventory_A
       = Some (demo_spare ''CCCC-2222-DDDD'' None)
   \<and> val_success (fst (validateDevices demo_api demo_platform ''AAAA-1111-BBBB''
                          ''CCCC-2222-DDDD''))"
proof -
  have claimed: "find (\<lambda>d. dev_serial d = ''GGGG-4444-HHHH'') demo_inventory_A
       = Some (demo_spare ''GGGG-4444-HHHH'' (Some ''N_A0''))"
    by (simp add: demo_inventory_A_def demo_failed_def demo_spare_def)
  have free: "find (\<lambda>d. dev_serial d = ''CCCC-2222-DDDD'') demo_inventory_A
       = Some (demo_spare ''CCCC-2222-DDDD'' None)"
    by (simp add: demo_inventory_A_def demo_failed_def demo_spare_def)
  have net: "getNetwork demo_platform (''A'', ''keyA'') ''N_A0''
       = Inr \<lparr>net_id = ''N_A0'', net_name = ''Warehouse''\<rparr>"
    by (simp add: demo_platform_def)
  from claim_conflict_check [OF demo_found_search demo_client_A demo_inventory claimed]
       claim_conflict_check [OF demo_found_search demo_client_A demo_inventory free]
       net claimed free demo_found_search
  show ?thesis by (simp add: demo_found_def demo_spare_def)
qed

section \<open>The steps of the pipeline\<close>

lemma fetchConfiguration_calls:
  "snd (fetchConfiguration p c networkId failedSerial) \<noteq> []
   \<and> list_all (\<lambda>x. request_step (snd x) = 1) (snd (fetchConfiguration p c networkId failedSerial))"
  by (simp add: fetchConfiguration_def Let_def split: sum.splits)

lemma fetchConfiguration_failed:
  "fst (fetchConfiguration p c networkId failedSerial) = Inl e \<Longrightarrow>
     fetchConfiguration p c networkId failedSerial = (Inl e, [(c, GetNetworkDevice networkId failedSerial)])"
  by (simp add: fetchConfiguration_def Let_def split: sum.splits)

lemma claimReplacement_calls:
  "snd (claimReplacement p c networkId replacementSerial)
     = [(c, ClaimDevices networkId [replacementSerial])]"
  by (simp add: claimReplacement_def split: sum.splits)

lemma applySwitchPorts_calls:
  "list_all (\<lambda>x. request_step (snd x) = 3) (applySwitchPorts p c networkId replacementSerial ports)"
  by (induction ports) (simp_all split: sum.splits)

lemma applyConfiguration_calls:
  "snd (applyConfiguration p c networkId replacementSerial cfg radio ports) \<noteq> []
   \<and> list_all (\<lambda>x. request_step (snd x) = 3)
        (snd (applyConfiguration p c networkId replacementSerial cfg radio ports))"
  by (simp add: applyConfiguration_def applySwitchPorts_calls split: sum.splits option.splits)

lemma applyConfiguration_failed:
  "fst (applyConfiguration p c networkId replacementSerial cfg radio ports) = Inl e \<Longrightarrow>
     applyConfiguration p c networkId replacementSerial cfg radio ports
       = (Inl e, [(c, PutDevice networkId replacementSerial cfg)])"
  by (simp add: applyConfiguration_def split: sum.splits)

lemma removeFailedDevice_calls:
  "snd (removeFailedDevice p c networkId failedSerial) = [(c, RemoveDevice networkId failedSerial)]"
  by (simp add: removeFailedDevice_def split: sum.splits)

lemma list_all_le: "list_all (\<lambda>x. request_step (snd x) = j) xs \<Longrightarrow> j \<le> k \<Longrightarrow>
    list_all (\<lambda>x. request_step (snd x) \<le> k) xs"
  by (induction xs) auto

lemma step_numbers:
  "[Suc 0..<2] = [Suc 0]" "[Suc 0..<3] = [Suc 0, 2]" "[Suc 0..<4] = [Suc 0, 2, 3]"
  "[Suc 0..<5] = [Suc 0, 2, 3, 4]"
  by (simp_all add: upt_rec)

lemma replaceDevice_step1_fails:
  assumes "getClient api organizationId = Inr c"
    and "fst (fetchConfiguration p c networkId failedSerial) = Inl e"
  shows "aborted_at 1 e
           (replaceDevice api p now failedSerial replacementSerial networkId organizationId)"
proof -
  note f = fetchConfiguration_failed [OF assms(2)]
  show ?thesis
    by (simp add: aborted_at_def replaceDevice_def assms(1) f catchBlock_def stepStarted_def
          step_numbers)
qed

lemma replaceDevice_step2_fails:
  assumes "getClient api organizationId = Inr c"
    and "fst (fetchConfiguration p c networkId failedSerial) = Inr (failedDevice, radio, ports)"
    and "fst (claimReplacement p c networkId replacementSerial) = Inl e"
  shows "aborted_at 2 e
           (replaceDevice api p now failedSerial replacementSerial networkId organizationId)"
proof -
  obtain t1 where f: "fetchConfiguration p c networkId failedSerial
      = (Inr (failedDevice, radio, ports), t1)"
    using assms(2) by (cases "fetchConfiguration p c networkId failedSerial") simp
  from fetchConfiguration_calls [of p c networkId failedSerial] f
  have t1: "list_all (\<lambda>x. request_step (snd x) = 1) t1" by simp
  from assms(3) claimReplacement_calls [of p c networkId replacementSerial]
  have cl: "claimReplacement p c networkId replacementSerial
      = (Inl e, [(c, ClaimDevices networkId [replacementSerial])])"
    by (cases "claimReplacement p c networkId replacementSerial") simp
  from list_all_le [OF t1, of 2] have "list_all (\<lambda>x. request_step (snd x) \<le> 2) t1" by simp
  then show ?thesis
    by (simp add: aborted_at_def replaceDevice_def assms(1) f cl catchBlock_def stepStarted_def
          completeStep_def step_numbers)
qed


lemma replaceDevice_step3_fails:
  assumes "getClient api organizationId = Inr c"
    and "fst (fetchConfiguration p c networkId failedSerial) = Inr (failedDevice, radio, ports)"
    and "fst (claimReplacement p c networkId replacementSerial) = Inr ()"
    and "fst (applyConfiguration p c networkId replacementSerial
               (configData failedDevice failedSerial replacementSerial (now 3)) radio ports)
           = Inl e"
  shows "aborted_at 3 e
           (replaceDevice api p now failedSerial replacementSerial networkId organizationId)"
proof -
  obtain t1 where f: "fetchConfiguration p c networkId failedSerial
      = (Inr (failedDevice, radio, ports), t1)"
    using assms(2) by (cases "fetchConfiguration p c networkId failedSerial") simp
  from fetchConfiguration_calls [of p c networkId failedSerial] f
  have t1: "list_all (\<lambda>x. request_step (snd x) = 1) t1" by simp
  from assms(3) claimReplacement_calls [of p c networkId replacementSerial]
  have cl: "claimReplacement p c networkId replacementSerial
      = (Inr (), [(c, ClaimDevices networkId [replacementSerial])])"
    by (cases "claimReplacement p c networkId replacementSerial") simp
  note ap = applyConfiguration_failed [OF assms(4)]
  from list_all_le [OF t1, of 3] have "list_all (\<lambda>x. request_step (snd x) \<le> 3) t1" by simp
  then show ?thesis
    by (simp add: aborted_at_def replaceDevice_def assms(1) f cl ap catchBlock_def
          stepStarted_def completeStep_def step_numbers)
qed

lemma replaceDevice_step4_fails:
  assumes "getClient api organizationId = Inr c"
    and "fst (fetchConfiguration p c networkId failedSerial) = Inr (failedDevice, radio, ports)"
    and "fst (claimReplacement p c networkId replacementSerial) = Inr ()"
    and "fst (applyConfiguration p c networkId replacementSerial
               (configData failedDevice failedSerial replacementSerial (now 3)) radio ports)
           = Inr ()"
    and "fst (removeFailedDevice p c networkId failedSerial) = Inl e"
  shows "aborted_at 4 e
           (replaceDevice api p now failedSerial replacementSerial networkId organizationId)"
proof -
  let ?cfg = "configData failedDevice failedSerial replacementSerial (now 3)"
  obtain t1 where f: "fetchConfiguration p c networkId failedSerial
      = (Inr (failedDevice, radio, ports), t1)"
    using assms(2) by (cases "fetchConfiguration p c networkId failedSerial") simp
  from fetchConfiguration_calls [of p c networkId failedSerial] f
  have t1: "list_all (\<lambda>x. request_step (snd x) = 1) t1" by simp
  from assms(3) claimReplacement_calls [of p c networkId replacementSerial]
  have cl: "claimReplacement p c networkId replacementSerial
      = (Inr (), [(c, ClaimDevices networkId [replacementSerial])])"
    by (cases "claimReplacement p c networkId replacementSerial") simp
  obtain t3 where ap: "applyConfiguration p c networkId replacementSerial ?cfg radio ports
      = (Inr (), t3)"
    using assms(4)
    by (cases "applyConfiguration p c networkId replacementSerial ?cfg radio ports") simp
  from applyConfiguration_calls [of p c networkId replacementSerial ?cfg radio ports] ap
  have t3: "list_all (\<lambda>x. request_step (snd x) = 3) t3" by simp
  from assms(5) removeFailedDevice_calls [of p c networkId failedSerial]
  have rm: "removeFailedDevice p c networkId failedSerial
      = (Inl e, [(c, RemoveDevice networkId failedSerial)])"
    by (cases "removeFailedDevice p c networkId failedSerial") simp
  from list_all_le [OF t1, of 4] list_all_le [OF t3, of 4]
  have "list_all (\<lambda>x. request_step (snd x) \<le> 4) t1"
       "list_all (\<lambda>x. request_step (snd x) \<le> 4) t3" by simp_all
  then show ?thesis
    by (simp add: aborted_at_def replaceDevice_def assms(1) f cl ap rm catchBlock_def
          stepStarted_def completeStep_def step_numbers)
qed

lemma aborted_at_3_shape:
  assumes "aborted_at 3 e run"
  shows "length (rr_operations (fst run)) = 3
     \<and> op_status (rr_operations (fst run) ! 1) = Completed
     \<and> op_status (rr_operations (fst run) ! 2) = Failed
     \<and> op_error (rr_operations (fst run) ! 2) = Some (err_message e)
     \<and> list_all (\<lambda>x. request_step (snd x) \<noteq> 4) (snd run)"
proof -
  let ?ops = "rr_operations (fst run)"
  from assms have steps: "map op_step ?ops = [1, 2, 3]"
    and earlier: "list_all (\<lambda>op. op_status op = Completed \<and> op_error op = None) (butlast ?ops)"
    and failed: "op_status (last ?ops) = Failed" "op_error (last ?ops) = Some (err_message e)"
    and calls: "list_all (\<lambda>x. request_step (snd x) \<le> 3) (snd run)"
    by (simp_all add: aborted_at_def step_numbers)
  from steps have len: "length ?ops = 3"
    by (metis length_map length_Cons list.size(3) numeral_3_eq_3)
  then obtain a b d where ops: "?ops = [a, b, d]"
    by (metis (no_types, opaque_lifting) length_0_conv length_Suc_conv numeral_3_eq_3)
  from calls have "list_all (\<lambda>x. request_step (snd x) \<noteq> 4) (snd run)"
    by (auto simp add: list_all_iff)
  with len ops earlier failed show ?thesis by simp
qed



lemma replaceDevice_completes:
  assumes "getClient api organizationId = Inr c"
    and "fst (fetchConfiguration p c networkId failedSerial) = Inr (failedDevice, radio, ports)"
    and "fst (claimReplacement p c networkId replacementSerial) = Inr ()"
    and "fst (applyConfiguration p c networkId replacementSerial
               (configData failedDevice failedSerial replacementSerial (now 3)) radio ports)
           = Inr ()"
    and "fst (removeFailedDevice p c networkId failedSerial) = Inr ()"
  shows "rr_success (fst (replaceDevice api p now failedSerial replacementSerial networkId
                             organizationId))
     \<and> map op_step (rr_operations (fst (replaceDevice api p now failedSerial replacementSerial
                                          networkId organizationId))) = [1, 2, 3, 4]
     \<and> map op_status (rr_operations (fst (replaceDevice api p now failedSerial
                                            replacementSerial networkId organizationId)))
         = [Completed, Completed, Completed, Completed]
     \<and> snd (replaceDevice api p now failedSerial replacementSerial networkId organizationId)
         = snd (fetchConfiguration p c networkId failedSerial)
           @ snd (claimReplacement p c networkId replacementSerial)
           @ snd (applyConfiguration p c networkId replacementSerial
                    (configData failedDevice failedSerial replacementSerial (now 3)) radio ports)
           @ snd (removeFailedDevice p c networkId failedSerial)"
proof -
  let ?cfg = "configData failedDevice failedSerial replacementSerial (now 3)"
  obtain t1 where f: "fetchConfiguration p c networkId failedSerial
      = (Inr (failedDevice, radio, ports), t1)"
    using assms(2) by (cases "fetchConfiguration p c networkId failedSerial") simp
  obtain t2 where cl: "claimReplacement p c networkId replacementSerial = (Inr (), t2)"
    using assms(3) by (cases "claimReplacement p c networkId replacementSerial") simp
  obtain t3 where ap: "applyConfiguration p c networkId replacementSerial ?cfg radio ports
      = (Inr (), t3)"
    using assms(4)
    by (cases "applyConfiguration p c networkId replacementSerial ?cfg radio ports") simp
  obtain t4 where rm: "removeFailedDevice p c networkId failedSerial = (Inr (), t4)"
    using assms(5) by (cases "removeFailedDevice p c networkId failedSerial") simp
  show ?thesis
    by (simp add: replaceDevice_def Let_def assms(1) f cl ap rm stepStarted_def completeStep_def)
qed

lemma demo_fetch:
  "fetchConfiguration demo_platform (''A'', ''keyA'') ''N_A1'' ''AAAA-1111-BBBB''
     = (Inr (demo_failed, None, None),
        [((''A'', ''keyA''), GetNetworkDevice ''N_A1'' ''AAAA-1111-BBBB''),
         ((''A'', ''keyA''), GetRadioSettings ''N_A1'' ''AAAA-1111-BBBB''),
         ((''A'', ''keyA''), GetSwitchPorts ''N_A1'' ''AAAA-1111-BBBB'')])"
  by (simp add: fetchConfiguration_def demo_platform_def)

lemma demo_client: "getClient demo_api ''A'' = Inr (''A'', ''keyA'')"
  by (simp add: demo_api_def getClient_def)


lemma js_trim_blank: "js_trim s = [] \<longleftrightarrow> (\<forall>ch\<in>set s. js_whitespace ch)"
proof
  assume "js_trim s = []"
  then have "\<forall>ch\<in>set (dropWhile js_whitespace s). js_whitespace ch"
    by (simp add: js_trim_def)
  moreover have "dropWhile js_whitespace s \<noteq> [] \<Longrightarrow>
      \<not> js_whitespace (hd (dropWhile js_whitespace s))"
    by (rule hd_dropWhile)
  ultimately have "dropWhile js_whitespace s = []"
    by (metis list.set_sel(1))
  then show "\<forall>ch\<in>set s. js_whitespace ch"
    by simp
next
  assume "\<forall>ch\<in>set s. js_whitespace ch"
  then have d: "dropWhile js_whitespace s = []" by simp
  show "js_trim s = []" unfolding js_trim_def d by simp
qed

lemma js_trim_not_blank: "js_trim s \<noteq> [] \<Longrightarrow> s \<noteq> []"
  by (auto simp add: js_trim_blank)

lemma applySwitchPorts_no_payload:
  "(c', PutDevice n s cfg) \<notin> set (applySwitchPorts p c networkId replacementSerial ports)"
  by (induction ports) (auto split: sum.splits)

lemma replaceDevice_payload:
  assumes "(c', PutDevice n s cfg)
     \<in> set (snd (replaceDevice api p now failedSerial replacementSerial networkId organizationId))"
  shows "\<exists>d. getClient api organizationId = Inr c'
           \<and> getNetworkDevice p c' networkId failedSerial = Inr d
           \<and> n = networkId \<and> s = replacementSerial
           \<and> cfg = configData d failedSerial replacementSerial (now 3)"
  using assms applySwitchPorts_no_payload [of c' n s cfg p]
  by (auto simp add: replaceDevice_def Let_def fetchConfiguration_def claimReplacement_def
        applyConfiguration_def removeFailedDevice_def
        split: sum.splits prod.splits option.splits if_splits)



section \<open>The abort policy\<close>

text \<open>
  C3. In a run of \<open>replaceDevice\<close>, when a step leaves the \<open>try\<close> block with an
  error (the steps return \<open>Inl\<close> exactly for the errors they do not recover from),
  the run is aborted at that step: the record of the step is failed and carries the
  message of the error, the records before it are completed, there is no record and no
  call of a later step, and the answer is \<open>success: false\<close> with these operations.
  In particular, when step 3 fails after step 2 succeeded there are three operations,
  the second completed, the third failed, and no call of step 4.
\<close>

theorem replaceDevice_aborts_at_failed_step:
  assumes "getClient api organizationId = Inr c"
  shows "(\<forall>e. fst (fetchConfiguration p c networkId failedSerial) = Inl e \<longrightarrow>
            aborted_at 1 e
              (replaceDevice api p now failedSerial replacementSerial networkId organizationId))
     \<and> (\<forall>failedDevice radio ports.
           fst (fetchConfiguration p c networkId failedSerial) = Inr (failedDevice, radio, ports)
           \<longrightarrow>
           (\<forall>e. fst (claimReplacement p c networkId replacementSerial) = Inl e \<longrightarrow>
              aborted_at 2 e
                (replaceDevice api p now failedSerial replacementSerial networkId organizationId))
           \<and> (fst (claimReplacement p c networkId replacementSerial) = Inr () \<longrightarrow>
                (\<forall>e. fst (applyConfiguration p c networkId replacementSerial
                            (configData failedDevice failedSerial replacementSerial (now 3))
                            radio ports) = Inl e \<longrightarrow>
                   aborted_at 3 e
                     (replaceDevice api p now failedSerial replacementSerial networkId
                        organizationId)
                   \<and> length (rr_operations (fst (replaceDevice api p now failedSerial
                                 replacementSerial networkId organizationId))) = 3
                   \<and> op_status (rr_operations (fst (replaceDevice api p now failedSerial
                                 replacementSerial networkId organizationId)) ! 1) = Completed
                   \<and> op_status (rr_operations (fst (replaceDevice api p now failedSerial
                                 replacementSerial networkId organizationId)) ! 2) = Failed
                   \<and> op_error (rr_operations (fst (replaceDevice api p now failedSerial
                                 replacementSerial networkId organizationId)) ! 2)
                       = Some (err_message e)
                   \<and> list_all (\<lambda>x. request_step (snd x) \<noteq> 4)
                        (snd (replaceDevice api p now failedSerial replacementSerial networkId
                                organizationId)))
                \<and> (fst (applyConfiguration p c networkId replacementSerial
                            (configData failedDevice failedSerial replacementSerial (now 3))
                            radio ports) = Inr () \<longrightarrow>
                     (\<forall>e. fst (removeFailedDevice p c networkId failedSerial) = Inl e \<longrightarrow>
                        aborted_at 4 e
                          (replaceDevice api p now failedSerial replacementSerial networkId
                             organizationId)))))"
proof -
  let ?run = "replaceDevice api p now failedSerial replacementSerial networkId organizationId"
  have s1: "aborted_at 1 e ?run"
    if "fst (fetchConfiguration p c networkId failedSerial) = Inl e" for e
    using that by (rule replaceDevice_step1_fails [OF assms])
  have s2: "aborted_at 2 e ?run"
    if "fst (fetchConfiguration p c networkId failedSerial) = Inr (failedDevice, radio, ports)"
       "fst (claimReplacement p c networkId replacementSerial) = Inl e"
    for failedDevice radio ports e
    using that by (rule replaceDevice_step2_fails [OF assms])
  have s3: "aborted_at 3 e ?run
      \<and> length (rr_operations (fst ?run)) = 3
      \<and> op_status (rr_operations (fst ?run) ! 1) = Completed
      \<and> op_status (rr_operations (fst ?run) ! 2) = Failed
      \<and> op_error (rr_operations (fst ?run) ! 2) = Some (err_message e)
      \<and> list_all (\<lambda>x. request_step (snd x) \<noteq> 4) (snd ?run)"
    if "fst (fetchConfiguration p c networkId failedSerial) = Inr (failedDevice, radio, ports)"
       "fst (claimReplacement p c networkId replacementSerial) = Inr ()"
       "fst (applyConfiguration p c networkId replacementSerial
              (configData failedDevice failedSerial replacementSerial (now 3)) radio ports)
          = Inl e"
    for failedDevice radio ports e
  proof -
    from that have a: "aborted_at 3 e ?run" by (rule replaceDevice_step3_fails [OF assms])
    with aborted_at_3_shape [OF a] show ?thesis by simp
  qed
  have s4: "aborted_at 4 e ?run"
    if "fst (fetchConfiguration p c networkId failedSerial) = Inr (failedDevice, radio, ports)"
       "fst (claimReplacement p c networkId replacementSerial) = Inr ()"
       "fst (applyConfiguration p c networkId replacementSerial
              (configData failedDevice failedSerial replacementSerial (now 3)) radio ports)
          = Inr ()"
       "fst (removeFailedDevice p c networkId failedSerial) = Inl e"
    for failedDevice radio ports e
    using that by (rule replaceDevice_step4_fails [OF assms])
  show ?thesis
  proof (intro conjI allI impI)
    fix e assume "fst (fetchConfiguration p c networkId failedSerial) = Inl e"
    then show "aborted_at 1 e ?run" by (rule s1)
  next
    fix failedDevice radio ports e
    assume "fst (fetchConfiguration p c networkId failedSerial) = Inr (failedDevice, radio, ports)"
      and "fst (claimReplacement p c networkId replacementSerial) = Inl e"
    then show "aborted_at 2 e ?run" by (rule s2)
  next
    fix failedDevice radio ports e
    assume h: "fst (fetchConfiguration p c networkId failedSerial)
          = Inr (failedDevice, radio, ports)"
      "fst (claimReplacement p c networkId replacementSerial) = Inr ()"
      "fst (applyConfiguration p c networkId replacementSerial
             (configData failedDevice failedSerial replacementSerial (now 3)) radio ports)
         = Inl e"
    note r = s3 [OF h]
    from r show "aborted_at 3 e ?run" by simp
    from r show "length (rr_operations (fst ?run)) = 3" by simp
    from r show "op_status (rr_operations (fst ?run) ! 1) = Completed" by simp
    from r show "op_status (rr_operations (fst ?run) ! 2) = Failed" by simp
    from r show "op_error (rr_operations (fst ?run) ! 2) = Some (err_message e)" by simp
    from r show "list_all (\<lambda>x. request_step (snd x) \<noteq> 4) (snd ?run)" by simp
  next
    fix failedDevice radio ports e
    assume "fst (fetchConfiguration p c networkId failedSerial) = Inr (failedDevice, radio, ports)"
      and "fst (claimReplacement p c networkId replacementSerial) = Inr ()"
      and "fst (applyConfiguration p c networkId replacementSerial
             (configData failedDevice failedSerial replacementSerial (now 3)) radio ports)
         = Inr ()"
      and "fst (removeFailedDevice p c networkId failedSerial) = Inl e"
    then show "aborted_at 4 e ?run" by (rule s4)
  qed
qed

theorem replaceDevice_aborts_at_failed_step_witness:
  "getClient demo_api ''A'' = Inr (''A'', ''keyA'')
   \<and> fst (fetchConfiguration update_rejected_platform (''A'', ''keyA'') ''N_A1'' ''AAAA-1111-BBBB'')
       = Inr (demo_failed, None, None)
   \<and> fst (claimReplacement update_rejected_platform (''A'', ''keyA'') ''N_A1'' ''CCCC-2222-DDDD'')
       = Inr ()
   \<and> fst (applyConfiguration update_rejected_platform (''A'', ''keyA'') ''N_A1'' ''CCCC-2222-DDDD''
            (configData demo_failed ''AAAA-1111-BBBB'' ''CCCC-2222-DDDD'' (demo_now 3)) None None)
       = Inl (bad_request ''Invalid address'')
   \<and> aborted_at 3 (bad_request ''Invalid address'')
        (replaceDevice demo_api update_rejected_platform demo_now ''AAAA-1111-BBBB''
           ''CCCC-2222-DDDD'' ''N_A1'' ''A'')
   \<and> length (rr_operations (fst (replaceDevice demo_api update_rejected_platform demo_now
                 ''AAAA-1111-BBBB'' ''CCCC-2222-DDDD'' ''N_A1'' ''A''))) = 3
   \<and> op_status (rr_operations (fst (replaceDevice demo_api update_rejected_platform demo_now
                 ''AAAA-1111-BBBB'' ''CCCC-2222-DDDD'' ''N_A1'' ''A'')) ! 1) = Completed
   \<and> op_status (rr_operations (fst (replaceDevice demo_api update_rejected_platform demo_now
                 ''AAAA-1111-BBBB'' ''CCCC-2222-DDDD'' ''N_A1'' ''A'')) ! 2) = Failed
   \<and> op_error (rr_operations (fst (replaceDevice demo_api update_rejected_platform demo_now
                 ''AAAA-1111-BBBB'' ''CCCC-2222-DDDD'' ''N_A1'' ''A'')) ! 2)
       = Some ''Request failed with status code 400''"
proof -
  have cl: "getClient demo_api ''A'' = Inr (''A'', ''keyA'')"
    by (simp add: demo_api_def getClient_def)
  have f: "fst (fetchConfiguration update_rejected_platform (''A'', ''keyA'') ''N_A1''
                  ''AAAA-1111-BBBB'') = Inr (demo_failed, None, None)"
    by (simp add: fetchConfiguration_def update_rejected_platform_def demo_platform_def)
  have c2: "fst (claimReplacement update_rejected_platform (''A'', ''keyA'') ''N_A1''
                  ''CCCC-2222-DDDD'') = Inr ()"
    by (simp add: claimReplacement_def update_rejected_platform_def demo_platform_def)
  have a3: "fst (applyConfiguration update_rejected_platform (''A'', ''keyA'') ''N_A1''
                  ''CCCC-2222-DDDD''
                  (configData demo_failed ''AAAA-1111-BBBB'' ''CCCC-2222-DDDD'' (demo_now 3))
                  None None) = Inl (bad_request ''Invalid address'')"
    by (simp add: applyConfiguration_def update_rejected_platform_def demo_platform_def)
  from replaceDevice_aborts_at_failed_step
         [OF cl, of update_rejected_platform "''N_A1''" "''AAAA-1111-BBBB''" demo_now
            "''CCCC-2222-DDDD''"]
       cl f c2 a3
  show ?thesis by (simp add: bad_request_def)
qed

section \<open>Errors of the claim\<close>

lemma claim_swallowed:
  "claimDevices p c networkId [replacementSerial] = Inl e \<Longrightarrow> alreadyClaimed e \<Longrightarrow>
     fst (claimReplacement p c networkId replacementSerial) = Inr ()"
  by (simp add: claimReplacement_def)

lemma claim_thrown:
  "claimDevices p c networkId [replacementSerial] = Inl e \<Longrightarrow> \<not> alreadyClaimed e \<Longrightarrow>
     fst (claimReplacement p c networkId replacementSerial) = Inl e"
  by (simp add: claimReplacement_def)

lemma replaceDevice_reaches_step3:
  assumes "getClient api organizationId = Inr c"
    and "fst (fetchConfiguration p c networkId failedSerial) = Inr (failedDevice, radio, ports)"
    and "fst (claimReplacement p c networkId replacementSerial) = Inr ()"
  shows "3 \<le> length (rr_operations (fst (replaceDevice api p now failedSerial replacementSerial
                                            networkId organizationId)))
     \<and> op_status (rr_operations (fst (replaceDevice api p now failedSerial replacementSerial
                                        networkId organizationId)) ! 1) = Completed
     \<and> op_error (rr_operations (fst (replaceDevice api p now failedSerial replacementSerial
                                       networkId organizationId)) ! 1) = None
     \<and> (c, PutDevice networkId replacementSerial
              (configData failedDevice failedSerial replacementSerial (now 3)))
         \<in> set (snd (replaceDevice api p now failedSerial replacementSerial networkId
                        organizationId))"
proof -
  let ?cfg = "configData failedDevice failedSerial replacementSerial (now 3)"
  obtain t1 where f: "fetchConfiguration p c networkId failedSerial
      = (Inr (failedDevice, radio, ports), t1)"
    using assms(2) by (cases "fetchConfiguration p c networkId failedSerial") simp
  obtain t2 where cl: "claimReplacement p c networkId replacementSerial = (Inr (), t2)"
    using assms(3) by (cases "claimReplacement p c networkId replacementSerial") simp
  obtain r3 t3 where ap: "applyConfiguration p c networkId replacementSerial ?cfg radio ports
      = (r3, t3)"
    by (cases "applyConfiguration p c networkId replacementSerial ?cfg radio ports")
  then have put: "(c, PutDevice networkId replacementSerial ?cfg) \<in> set t3"
    by (auto simp add: applyConfiguration_def split: sum.splits)
  obtain r4 t4 where rm: "removeFailedDevice p c networkId failedSerial = (r4, t4)"
    by (cases "removeFailedDevice p c networkId failedSerial")
  from put show ?thesis
    by (cases r3; cases r4)
       (simp_all add: replaceDevice_def Let_def assms(1) f cl ap rm catchBlock_def
          stepStarted_def completeStep_def)
qed

lemma claimed_elsewhere:
  "alreadyClaimed (bad_request
     ''Device with serial CCCC-2222-DDDD is already claimed and in another organization'')"
  by code_simp

lemma claimed_here:
  "alreadyClaimed (bad_request ''Device CCCC-2222-DDDD is already claimed in this network'')"
  by code_simp

lemma not_claimable:
  "\<not> alreadyClaimed (bad_request ''Device CCCC-2222-DDDD not found'')"
  by code_simp

lemma claim_error_fetch:
  "fst (fetchConfiguration (claim_error_platform detail) (''A'', ''keyA'') ''N_A1''
          ''AAAA-1111-BBBB'') = Inr (demo_failed, None, None)"
  by (simp add: fetchConfiguration_def claim_error_platform_def demo_platform_def)

lemma claim_error_claim:
  "claimDevices (claim_error_platform detail) (''A'', ''keyA'') ''N_A1'' [''CCCC-2222-DDDD'']
     = Inl (bad_request detail)"
  by (simp add: claim_error_platform_def demo_platform_def)

text \<open>
  The guard of step 2 in terms of its own test, \<open>alreadyClaimed\<close>: an error that
  passes the test is swallowed, the record of step 2 ends completed and step 3 runs; an
  error that fails it aborts the pipeline at step 2. The answer "already claimed in this
  network" passes the test, the answer "not found" fails it.
\<close>

lemma claim_guard:
  assumes "getClient api organizationId = Inr c"
    and "fst (fetchConfiguration p c networkId failedSerial) = Inr (failedDevice, radio, ports)"
    and "claimDevices p c networkId [replacementSerial] = Inl e"
  shows "(alreadyClaimed e \<longrightarrow>
            3 \<le> length (rr_operations (fst (replaceDevice api p now failedSerial
                             replacementSerial networkId organizationId)))
            \<and> op_status (rr_operations (fst (replaceDevice api p now failedSerial
                             replacementSerial networkId organizationId)) ! 1) = Completed
            \<and> op_error (rr_operations (fst (replaceDevice api p now failedSerial
                             replacementSerial networkId organizationId)) ! 1) = None
            \<and> (c, PutDevice networkId replacementSerial
                     (configData failedDevice failedSerial replacementSerial (now 3)))
                \<in> set (snd (replaceDevice api p now failedSerial replacementSerial networkId
                               organizationId)))
     \<and> (\<not> alreadyClaimed e \<longrightarrow>
            aborted_at 2 e
              (replaceDevice api p now failedSerial replacementSerial networkId organizationId)
            \<and> length (rr_operations (fst (replaceDevice api p now failedSerial
                          replacementSerial networkId organizationId))) = 2
            \<and> list_all (\<lambda>x. request_step (snd x) \<noteq> 3 \<and> request_step (snd x) \<noteq> 4)
                 (snd (replaceDevice api p now failedSerial replacementSerial networkId
                         organizationId)))"
proof (intro conjI impI)
  let ?run = "replaceDevice api p now failedSerial replacementSerial networkId organizationId"
  {
    assume "alreadyClaimed e"
    with assms(3) have cl: "fst (claimReplacement p c networkId replacementSerial) = Inr ()"
      by (rule claim_swallowed)
    note r = replaceDevice_reaches_step3 [where now = now, OF assms(1,2) cl]
    from r show "3 \<le> length (rr_operations (fst ?run))" by simp
    from r show "op_status (rr_operations (fst ?run) ! 1) = Completed" by simp
    from r show "op_error (rr_operations (fst ?run) ! 1) = None" by simp
    from r show "(c, PutDevice networkId replacementSerial
                     (configData failedDevice failedSerial replacementSerial (now 3)))
                \<in> set (snd ?run)" by simp
  }
  {
    assume "\<not> alreadyClaimed e"
    with assms(3) have cl: "fst (claimReplacement p c networkId replacementSerial) = Inl e"
      by (rule claim_thrown)
    from replaceDevice_step2_fails [where now = now, OF assms(1,2) cl]
    show a: "aborted_at 2 e ?run" .
    then have "length (map op_step (rr_operations (fst ?run))) = length [1..<Suc 2]"
      by (simp add: aborted_at_def)
    then show "length (rr_operations (fst ?run)) = 2" by simp
    from a have "list_all (\<lambda>x. request_step (snd x) \<le> 2) (snd ?run)"
      by (simp add: aborted_at_def)
    then show "list_all (\<lambda>x. request_step (snd x) \<noteq> 3 \<and> request_step (snd x) \<noteq> 4) (snd ?run)"
      by (auto simp add: list_all_iff)
  }
qed


lemma claim_guard_examples:
  "alreadyClaimed (bad_request ''Device CCCC-2222-DDDD is already claimed in this network'')
   \<and> op_status (rr_operations (fst (replaceDevice demo_api
          (claim_error_platform ''Device CCCC-2222-DDDD is already claimed in this network'')
          demo_now ''AAAA-1111-BBBB'' ''CCCC-2222-DDDD'' ''N_A1'' ''A'')) ! 1) = Completed
   \<and> \<not> alreadyClaimed (bad_request ''Device CCCC-2222-DDDD not found'')
   \<and> aborted_at 2 (bad_request ''Device CCCC-2222-DDDD not found'')
        (replaceDevice demo_api (claim_error_platform ''Device CCCC-2222-DDDD not found'')
           demo_now ''AAAA-1111-BBBB'' ''CCCC-2222-DDDD'' ''N_A1'' ''A'')
   \<and> length (rr_operations (fst (replaceDevice demo_api
          (claim_error_platform ''Device CCCC-2222-DDDD not found'')
          demo_now ''AAAA-1111-BBBB'' ''CCCC-2222-DDDD'' ''N_A1'' ''A''))) = 2"
  using
    claim_guard [where now = demo_now, OF demo_client
      claim_error_fetch [of "''Device CCCC-2222-DDDD is already claimed in this network''"]
      claim_error_claim [of "''Device CCCC-2222-DDDD is already claimed in this network''"]]
    claim_guard [where now = demo_now, OF demo_client
      claim_error_fetch [of "''Device CCCC-2222-DDDD not found''"]
      claim_error_claim [of "''Device CCCC-2222-DDDD not found''"]]
    claimed_here not_claimable
  by simp

text \<open>
  C4. Only the answer "already claimed in this network" to the claim of step 2 is to be
  treated as a success, and every other claim error is to abort the pipeline, with
  step 2 failed and steps 3 and 4 not run. The source means the same: the branch that
  swallows the error logs \<open>Device already claimed in this network\<close>. Its test,
  though, is whether the first error message contains \<open>already claimed\<close>. Here the
  platform refuses the claim because the device is claimed in another organization:
  the source records step 2 as completed, runs steps 3 and 4 and answers
  \<open>success: true\<close>.
\<close>

theorem claim_in_other_organization_swallowed:
  "claimDevices
     (claim_error_platform
        ''Device with serial CCCC-2222-DDDD is already claimed and in another organization'')
     (''A'', ''keyA'') ''N_A1'' [''CCCC-2222-DDDD'']
     = Inl (bad_request
         ''Device with serial CCCC-2222-DDDD is already claimed and in another organization'')
   \<and> rr_success (fst (replaceDevice demo_api
         (claim_error_platform
            ''Device with serial CCCC-2222-DDDD is already claimed and in another organization'')
         demo_now ''AAAA-1111-BBBB'' ''CCCC-2222-DDDD'' ''N_A1'' ''A''))
   \<and> map op_status (rr_operations (fst (replaceDevice demo_api
         (claim_error_platform
            ''Device with serial CCCC-2222-DDDD is already claimed and in another organization'')
         demo_now ''AAAA-1111-BBBB'' ''CCCC-2222-DDDD'' ''N_A1'' ''A'')))
       = [Completed, Completed, Completed, Completed]
   \<and> map (request_step \<circ> snd) (snd (replaceDevice demo_api
         (claim_error_platform
            ''Device with serial CCCC-2222-DDDD is already claimed and in another organization'')
         demo_now ''AAAA-1111-BBBB'' ''CCCC-2222-DDDD'' ''N_A1'' ''A''))
       = [1, 1, 1, 2, 3, 4]"
proof -
  let ?p = "claim_error_platform
     ''Device with serial CCCC-2222-DDDD is already claimed and in another organization''"
  have f: "fetchConfiguration ?p (''A'', ''keyA'') ''N_A1'' ''AAAA-1111-BBBB''
      = (Inr (demo_failed, None, None),
         [((''A'', ''keyA''), GetNetworkDevice ''N_A1'' ''AAAA-1111-BBBB''),
          ((''A'', ''keyA''), GetRadioSettings ''N_A1'' ''AAAA-1111-BBBB''),
          ((''A'', ''keyA''), GetSwitchPorts ''N_A1'' ''AAAA-1111-BBBB'')])"
    by (simp add: fetchConfiguration_def claim_error_platform_def demo_platform_def)
  have cl: "claimReplacement ?p (''A'', ''keyA'') ''N_A1'' ''CCCC-2222-DDDD''
      = (Inr (), [((''A'', ''keyA''), ClaimDevices ''N_A1'' [''CCCC-2222-DDDD''])])"
    by (simp add: claimReplacement_def claim_error_claim claimed_elsewhere)
  have ap: "applyConfiguration ?p (''A'', ''keyA'') ''N_A1'' ''CCCC-2222-DDDD'' cfg None None
      = (Inr (), [((''A'', ''keyA''), PutDevice ''N_A1'' ''CCCC-2222-DDDD'' cfg)])" for cfg
    by (simp add: applyConfiguration_def claim_error_platform_def demo_platform_def)
  have rm: "removeFailedDevice ?p (''A'', ''keyA'') ''N_A1'' ''AAAA-1111-BBBB''
      = (Inr (), [((''A'', ''keyA''), RemoveDevice ''N_A1'' ''AAAA-1111-BBBB'')])"
    by (simp add: removeFailedDevice_def claim_error_platform_def demo_platform_def)
  show ?thesis
    by (simp add: claim_error_claim replaceDevice_def Let_def demo_client f cl ap rm
          stepStarted_def completeStep_def)
qed


section \<open>The notes of the replacement\<close>

lemma marker_not_blank: "js_trim (before @ replacementNote failedSerial isoNow) \<noteq> []"
proof -
  have "CHR ''['' \<in> set (before @ replacementNote failedSerial isoNow)"
    by (simp add: replacementNote_def)
  moreover have "\<not> js_whitespace CHR ''[''"
    by (simp add: js_whitespace_def)
  ultimately show ?thesis
    by (auto simp add: js_trim_blank)
qed

lemma configData_notes_kept:
  "dev_notes d = Some T \<Longrightarrow> js_trim T \<noteq> [] \<Longrightarrow>
     cfg_notes (configData d failedSerial replacementSerial isoNow)
       = T @ '' '' @ replacementNote failedSerial isoNow"
  by (frule js_trim_not_blank) (simp add: configData_def js_or_def js_truthy_def)

lemma configData_notes_blank:
  "dev_notes d = None \<or> (\<exists>T. dev_notes d = Some T \<and> js_trim T = []) \<Longrightarrow>
     cfg_notes (configData d failedSerial replacementSerial isoNow)
       = replacementNote failedSerial isoNow"
  by (auto simp add: configData_def js_or_def js_truthy_def js_trim_def)

text \<open>
  C6, as stated, keeps the existing notes whenever they are non-empty. The source
  tests the trimmed notes: notes of two spaces are non-empty, and what is written is
  the marker alone.
\<close>

theorem blank_notes_counterexample:
  "dev_notes blank_notes_device = Some ''  ''
   \<and> cfg_notes (configData blank_notes_device ''AAAA-1111-BBBB'' ''CCCC-2222-DDDD''
                 ''2025-06-01T10:00:03.000Z'')
       = ''[Replaced AAAA-1111-BBBB on 2025-06-01T10:00:03.000Z]''
   \<and> cfg_notes (configData blank_notes_device ''AAAA-1111-BBBB'' ''CCCC-2222-DDDD''
                 ''2025-06-01T10:00:03.000Z'')
       \<noteq> ''  '' @ '' '' @ replacementNote ''AAAA-1111-BBBB'' ''2025-06-01T10:00:03.000Z''"
  by (simp add: blank_notes_device_def demo_failed_def configData_def replacementNote_def
        js_or_def js_truthy_def js_trim_def js_whitespace_def)

text \<open>
  C6, amended: the notes written to the replacement device are the failed device's
  notes, when these are not blank (not empty once trimmed), followed by a space and one
  replacement marker; missing or blank notes are replaced by the marker alone. Replacing
  twice over notes that hold a non-blank text \<open>T\<close> (the second run reads the notes
  the first one wrote) yields \<open>T\<close> and the two markers, each after a space. The
  notes of the payload that \<open>replaceDevice\<close> sends are these.
\<close>

theorem notes_are_appended:
  "(\<forall>T. dev_notes d = Some T \<and> js_trim T \<noteq> [] \<longrightarrow>
       cfg_notes (configData d failedSerial replacementSerial isoNow)
         = T @ '' '' @ replacementNote failedSerial isoNow
       \<and> (dev_notes d' = Some (cfg_notes (configData d failedSerial replacementSerial isoNow))
            \<longrightarrow> cfg_notes (configData d' failedSerial' replacementSerial' isoNow')
                  = T @ '' '' @ replacementNote failedSerial isoNow
                      @ '' '' @ replacementNote failedSerial' isoNow'))
   \<and> (dev_notes d = None \<or> (\<exists>T. dev_notes d = Some T \<and> js_trim T = []) \<longrightarrow>
         cfg_notes (configData d failedSerial replacementSerial isoNow)
           = replacementNote failedSerial isoNow)
   \<and> (\<forall>c n s cfg.
         (c, PutDevice n s cfg)
           \<in> set (snd (replaceDevice api p now failedSerial replacementSerial networkId
                          organizationId))
         \<longrightarrow> (\<exists>fd. getNetworkDevice p c networkId failedSerial = Inr fd
                    \<and> cfg_notes cfg
                        = cfg_notes (configData fd failedSerial replacementSerial (now 3))))"
proof (intro conjI allI impI)
  fix T assume h: "dev_notes d = Some T \<and> js_trim T \<noteq> []"
  then show first: "cfg_notes (configData d failedSerial replacementSerial isoNow)
      = T @ '' '' @ replacementNote failedSerial isoNow"
    by (simp add: configData_notes_kept)
  assume second: "dev_notes d'
      = Some (cfg_notes (configData d failedSerial replacementSerial isoNow))"
  have "js_trim ((T @ '' '') @ replacementNote failedSerial isoNow) \<noteq> []"
    by (rule marker_not_blank)
  with first have "js_trim (cfg_notes (configData d failedSerial replacementSerial isoNow)) \<noteq> []"
    by simp
  from configData_notes_kept [OF second this] first
  show "cfg_notes (configData d' failedSerial' replacementSerial' isoNow')
      = T @ '' '' @ replacementNote failedSerial isoNow
          @ '' '' @ replacementNote failedSerial' isoNow'"
    by simp
next
  assume "dev_notes d = None \<or> (\<exists>T. dev_notes d = Some T \<and> js_trim T = [])"
  then show "cfg_notes (configData d failedSerial replacementSerial isoNow)
      = replacementNote failedSerial isoNow"
    by (rule configData_notes_blank)
next
  fix c n s cfg
  assume "(c, PutDevice n s cfg)
      \<in> set (snd (replaceDevice api p now failedSerial replacementSerial networkId
                     organizationId))"
  from replaceDevice_payload [OF this]
  show "\<exists>fd. getNetworkDevice p c networkId failedSerial = Inr fd
           \<and> cfg_notes cfg = cfg_notes (configData fd failedSerial replacementSerial (now 3))"
    by blast
qed


theorem notes_are_appended_witness:
  "dev_notes demo_failed = Some ''rack 3'' \<and> js_trim ''rack 3'' \<noteq> []
   \<and> cfg_notes (configData demo_failed ''AAAA-1111-BBBB'' ''CCCC-2222-DDDD''
                 ''2025-06-01T10:00:03.000Z'')
       = ''rack 3 [Replaced AAAA-1111-BBBB on 2025-06-01T10:00:03.000Z]''
   \<and> dev_notes second_failed_device
       = Some (cfg_notes (configData demo_failed ''AAAA-1111-BBBB'' ''CCCC-2222-DDDD''
                            ''2025-06-01T10:00:03.000Z''))
   \<and> cfg_notes (configData second_failed_device ''CCCC-2222-DDDD'' ''GGGG-4444-HHHH''
                 ''2025-07-01T10:00:03.000Z'')
       = ''rack 3 [Replaced AAAA-1111-BBBB on 2025-06-01T10:00:03.000Z] [Replaced CCCC-2222-DDDD on 2025-07-01T10:00:03.000Z]''
   \<and> js_trim ''  '' = []
   \<and> cfg_notes (configData blank_notes_device ''AAAA-1111-BBBB'' ''CCCC-2222-DDDD''
                 ''2025-06-01T10:00:03.000Z'')
       = ''[Replaced AAAA-1111-BBBB on 2025-06-01T10:00:03.000Z]''
   \<and> js_trim [CHR 0xA0] = []
   \<and> cfg_notes (configData (demo_failed\<lparr>dev_notes := Some [CHR 0xA0]\<rparr>) ''AAAA-1111-BBBB''
                 ''CCCC-2222-DDDD'' ''2025-06-01T10:00:03.000Z'')
       = ''[Replaced AAAA-1111-BBBB on 2025-06-01T10:00:03.000Z]''"
proof -
  have kept: "dev_notes demo_failed = Some ''rack 3''" "js_trim ''rack 3'' \<noteq> []"
    by (simp_all add: demo_failed_def js_trim_def js_whitespace_def)
  have second: "dev_notes second_failed_device
       = Some (cfg_notes (configData demo_failed ''AAAA-1111-BBBB'' ''CCCC-2222-DDDD''
                            ''2025-06-01T10:00:03.000Z''))"
    by (simp add: second_failed_device_def demo_spare_def)
  have blank: "dev_notes blank_notes_device = Some ''  ''" "js_trim ''  '' = []"
    "js_trim [CHR 0xA0] = []"
    by (simp_all add: blank_notes_device_def js_trim_def js_whitespace_def)
  from notes_are_appended
         [of demo_failed "''AAAA-1111-BBBB''" "''CCCC-2222-DDDD''" "''2025-06-01T10:00:03.000Z''"
             second_failed_device "''CCCC-2222-DDDD''" "''GGGG-4444-HHHH''"
             "''2025-07-01T10:00:03.000Z''"]
       notes_are_appended
         [of blank_notes_device "''AAAA-1111-BBBB''" "''CCCC-2222-DDDD''"
             "''2025-06-01T10:00:03.000Z''"]
       notes_are_appended
         [of "demo_failed\<lparr>dev_notes := Some [CHR 0xA0]\<rparr>" "''AAAA-1111-BBBB''"
             "''CCCC-2222-DDDD''" "''2025-06-01T10:00:03.000Z''"]
       kept second blank
  show ?thesis by (simp add: replacementNote_def)
qed


section \<open>The payload of step 3\<close>

text \<open>
  C7, as stated, copies the address and the coordinates exactly when the failed device
  has them. A failed device on the prime meridian (longitude 0) whose address is three
  spaces has both, and the payload has neither: the address is tested after trimming,
  and the coordinates are tested for truthiness, which the number 0 fails.
\<close>

theorem present_fields_dropped_counterexample:
  "dev_address meridian_device = Some ''   ''
   \<and> dev_lat meridian_device = Some 51.4779 \<and> dev_lng meridian_device = Some 0
   \<and> cfg_address (configData meridian_device ''AAAA-1111-BBBB'' ''CCCC-2222-DDDD''
                    ''2025-06-01T10:00:03.000Z'') = None
   \<and> cfg_lat (configData meridian_device ''AAAA-1111-BBBB'' ''CCCC-2222-DDDD''
                ''2025-06-01T10:00:03.000Z'') = None
   \<and> cfg_lng (configData meridian_device ''AAAA-1111-BBBB'' ''CCCC-2222-DDDD''
                ''2025-06-01T10:00:03.000Z'') = None"
  by (simp add: meridian_device_def demo_failed_def configData_def Let_def js_trim_def
        js_whitespace_def)

text \<open>
  C7, amended: the payload of step 3 sets the hostname to the failed device's name,
  verbatim, when the name is not blank, and to the replacement serial otherwise. The
  tags are in the payload exactly when the failed device has at least one tag, the
  address exactly when it is not blank, the floor-plan identifier exactly when it is
  not empty. The coordinates are in the payload when both are present and neither is
  zero, and left out when one of them is missing. (What happens to a coordinate that is
  zero is not part of the amended claim.) The payload that \<open>replaceDevice\<close> sends
  is this one, built from the record it fetched in step 1.
\<close>

theorem configData_copies:
  "(dev_name d = Some name \<and> js_trim name \<noteq> [] \<longrightarrow>
       cfg_name (configData d failedSerial replacementSerial isoNow) = name)
   \<and> (dev_name d = None \<or> (\<exists>name. dev_name d = Some name \<and> js_trim name = []) \<longrightarrow>
         cfg_name (configData d failedSerial replacementSerial isoNow) = replacementSerial)
   \<and> (dev_tags d = Some ts \<and> ts \<noteq> [] \<longrightarrow>
         cfg_tags (configData d failedSerial replacementSerial isoNow) = Some ts)
   \<and> (dev_tags d = None \<or> dev_tags d = Some [] \<longrightarrow>
         cfg_tags (configData d failedSerial replacementSerial isoNow) = None)
   \<and> (dev_address d = Some a \<and> js_trim a \<noteq> [] \<longrightarrow>
         cfg_address (configData d failedSerial replacementSerial isoNow) = Some a)
   \<and> (dev_address d = None \<or> (\<exists>a. dev_address d = Some a \<and> js_trim a = []) \<longrightarrow>
         cfg_address (configData d failedSerial replacementSerial isoNow) = None)
   \<and> (dev_lat d = Some la \<and> dev_lng d = Some lo \<and> la \<noteq> 0 \<and> lo \<noteq> 0 \<longrightarrow>
         cfg_lat (configData d failedSerial replacementSerial isoNow) = Some la
         \<and> cfg_lng (configData d failedSerial replacementSerial isoNow) = Some lo)
   \<and> (dev_lat d = None \<or> dev_lng d = None \<longrightarrow>
         cfg_lat (configData d failedSerial replacementSerial isoNow) = None
         \<and> cfg_lng (configData d failedSerial replacementSerial isoNow) = None)
   \<and> (dev_floorPlanId d = Some fp \<and> fp \<noteq> [] \<longrightarrow>
         cfg_floorPlanId (configData d failedSerial replacementSerial isoNow) = Some fp)
   \<and> (dev_floorPlanId d = None \<or> dev_floorPlanId d = Some [] \<longrightarrow>
         cfg_floorPlanId (configData d failedSerial replacementSerial isoNow) = None)
   \<and> (\<forall>c n s cfg.
         (c, PutDevice n s cfg)
           \<in> set (snd (replaceDevice api p now failedSerial replacementSerial networkId
                          organizationId))
         \<longrightarrow> (\<exists>fd. getNetworkDevice p c networkId failedSerial = Inr fd
                    \<and> cfg = configData fd failedSerial replacementSerial (now 3)))"
proof -
  have name: "cfg_name (configData d failedSerial replacementSerial isoNow) = name"
    if "dev_name d = Some name \<and> js_trim name \<noteq> []"
    using that js_trim_not_blank [of name] by (simp add: configData_def Let_def)
  have noname: "cfg_name (configData d failedSerial replacementSerial isoNow) = replacementSerial"
    if "dev_name d = None \<or> (\<exists>name. dev_name d = Some name \<and> js_trim name = [])"
    using that by (auto simp add: configData_def Let_def)
  have tags: "cfg_tags (configData d failedSerial replacementSerial isoNow) = Some ts"
    if "dev_tags d = Some ts \<and> ts \<noteq> []"
    using that by (simp add: configData_def Let_def)
  have notags: "cfg_tags (configData d failedSerial replacementSerial isoNow) = None"
    if "dev_tags d = None \<or> dev_tags d = Some []"
    using that by (auto simp add: configData_def Let_def)
  have addr: "cfg_address (configData d failedSerial replacementSerial isoNow) = Some a"
    if "dev_address d = Some a \<and> js_trim a \<noteq> []"
    using that js_trim_not_blank [of a] by (simp add: configData_def Let_def)
  have noaddr: "cfg_address (configData d failedSerial replacementSerial isoNow) = None"
    if "dev_address d = None \<or> (\<exists>a. dev_address d = Some a \<and> js_trim a = [])"
    using that by (auto simp add: configData_def Let_def)
  have coord: "cfg_lat (configData d failedSerial replacementSerial isoNow) = Some la
         \<and> cfg_lng (configData d failedSerial replacementSerial isoNow) = Some lo"
    if "dev_lat d = Some la \<and> dev_lng d = Some lo \<and> la \<noteq> 0 \<and> lo \<noteq> 0"
    using that by (simp add: configData_def Let_def)
  have nocoord: "cfg_lat (configData d failedSerial replacementSerial isoNow) = None
         \<and> cfg_lng (configData d failedSerial replacementSerial isoNow) = None"
    if "dev_lat d = None \<or> dev_lng d = None"
    using that by (auto simp add: configData_def Let_def split: option.splits)
  have fp: "cfg_floorPlanId (configData d failedSerial replacementSerial isoNow) = Some fp"
    if "dev_floorPlanId d = Some fp \<and> fp \<noteq> []"
    using that by (simp add: configData_def Let_def js_truthy_def)
  have nofp: "cfg_floorPlanId (configData d failedSerial replacementSerial isoNow) = None"
    if "dev_floorPlanId d = None \<or> dev_floorPlanId d = Some []"
    using that by (auto simp add: configData_def Let_def js_truthy_def)
  have payload: "\<exists>fd. getNetworkDevice p c networkId failedSerial = Inr fd
                    \<and> cfg = configData fd failedSerial replacementSerial (now 3)"
    if "(c, PutDevice n s cfg)
           \<in> set (snd (replaceDevice api p now failedSerial replacementSerial networkId
                          organizationId))" for c n s cfg
    using replaceDevice_payload [OF that] by blast
  from name noname tags notags addr noaddr coord nocoord fp nofp payload
  show ?thesis by blast
qed


theorem configData_copies_witness:
  "dev_name demo_failed = Some ''AP-Lobby'' \<and> js_trim ''AP-Lobby'' \<noteq> []
   \<and> cfg_name (configData demo_failed ''AAAA-1111-BBBB'' ''CCCC-2222-DDDD''
                 ''2025-06-01T10:00:03.000Z'') = ''AP-Lobby''
   \<and> cfg_tags (configData demo_failed ''AAAA-1111-BBBB'' ''CCCC-2222-DDDD''
                 ''2025-06-01T10:00:03.000Z'') = Some [''lobby'']
   \<and> js_trim ''1 Main St'' \<noteq> []
   \<and> cfg_address (configData demo_failed ''AAAA-1111-BBBB'' ''CCCC-2222-DDDD''
                    ''2025-06-01T10:00:03.000Z'') = Some ''1 Main St''
   \<and> cfg_lat (configData demo_failed ''AAAA-1111-BBBB'' ''CCCC-2222-DDDD''
                ''2025-06-01T10:00:03.000Z'') = Some 48.1
   \<and> cfg_lng (configData demo_failed ''AAAA-1111-BBBB'' ''CCCC-2222-DDDD''
                ''2025-06-01T10:00:03.000Z'') = Some 11.5
   \<and> cfg_floorPlanId (configData demo_failed ''AAAA-1111-BBBB'' ''CCCC-2222-DDDD''
                        ''2025-06-01T10:00:03.000Z'') = None
   \<and> cfg_floorPlanId (configData (demo_failed\<lparr>dev_floorPlanId := Some ''g_1''\<rparr>)
                        ''AAAA-1111-BBBB'' ''CCCC-2222-DDDD'' ''2025-06-01T10:00:03.000Z'')
       = Some ''g_1''
   \<and> js_trim [CHR 0xA0] = []
   \<and> cfg_name (configData (demo_failed\<lparr>dev_name := Some [CHR 0xA0]\<rparr>) ''AAAA-1111-BBBB''
                 ''CCCC-2222-DDDD'' ''2025-06-01T10:00:03.000Z'') = ''CCCC-2222-DDDD''
   \<and> cfg_address (configData (demo_failed\<lparr>dev_address := Some [CHR 0xA0]\<rparr>)
                    ''AAAA-1111-BBBB'' ''CCCC-2222-DDDD'' ''2025-06-01T10:00:03.000Z'') = None
   \<and> dev_name (demo_spare ''GGGG-4444-HHHH'' None) = None
   \<and> cfg_name (configData (demo_spare ''GGGG-4444-HHHH'' None) ''GGGG-4444-HHHH''
                 ''CCCC-2222-DDDD'' ''2025-06-01T10:00:03.000Z'') = ''CCCC-2222-DDDD''
   \<and> cfg_tags (configData (demo_spare ''GGGG-4444-HHHH'' None) ''GGGG-4444-HHHH''
                 ''CCCC-2222-DDDD'' ''2025-06-01T10:00:03.000Z'') = None
   \<and> cfg_address (configData (demo_spare ''GGGG-4444-HHHH'' None) ''GGGG-4444-HHHH''
                    ''CCCC-2222-DDDD'' ''2025-06-01T10:00:03.000Z'') = None
   \<and> cfg_lat (configData (demo_spare ''GGGG-4444-HHHH'' None) ''GGGG-4444-HHHH''
                ''CCCC-2222-DDDD'' ''2025-06-01T10:00:03.000Z'') = None
   \<and> cfg_lng (configData (demo_spare ''GGGG-4444-HHHH'' None) ''GGGG-4444-HHHH''
                ''CCCC-2222-DDDD'' ''2025-06-01T10:00:03.000Z'') = None"
proof -
  have full: "dev_name demo_failed = Some ''AP-Lobby''" "js_trim ''AP-Lobby'' \<noteq> []"
    "dev_tags demo_failed = Some [''lobby'']"
    "dev_address demo_failed = Some ''1 Main St''" "js_trim ''1 Main St'' \<noteq> []"
    "dev_lat demo_failed = Some 48.1" "dev_lng demo_failed = Some 11.5"
    "dev_floorPlanId demo_failed = None"
    by (simp_all add: demo_failed_def js_trim_def js_whitespace_def)
  have bare: "dev_name (demo_spare ''GGGG-4444-HHHH'' None) = None"
    "dev_tags (demo_spare ''GGGG-4444-HHHH'' None) = None"
    "dev_address (demo_spare ''GGGG-4444-HHHH'' None) = None"
    "dev_lat (demo_spare ''GGGG-4444-HHHH'' None) = None"
    by (simp_all add: demo_spare_def)
  have nbsp: "js_trim [CHR 0xA0] = []"
    by (simp add: js_trim_def js_whitespace_def)
  from configData_copies
         [where d = "demo_failed\<lparr>dev_name := Some [CHR 0xA0]\<rparr>"
            and failedSerial = "''AAAA-1111-BBBB''" and replacementSerial = "''CCCC-2222-DDDD''"
            and isoNow = "''2025-06-01T10:00:03.000Z''"]
       configData_copies
         [where d = "demo_failed\<lparr>dev_address := Some [CHR 0xA0]\<rparr>"
            and failedSerial = "''AAAA-1111-BBBB''" and replacementSerial = "''CCCC-2222-DDDD''"
            and isoNow = "''2025-06-01T10:00:03.000Z''"]
       nbsp
       configData_copies
         [where d = demo_failed and failedSerial = "''AAAA-1111-BBBB''"
            and replacementSerial = "''CCCC-2222-DDDD''"
            and isoNow = "''2025-06-01T10:00:03.000Z''" and name = "''AP-Lobby''"
            and ts = "[''lobby'']" and a = "''1 Main St''" and la = "48.1" and lo = "11.5"]
       configData_copies
         [where d = "demo_failed\<lparr>dev_floorPlanId := Some ''g_1''\<rparr>"
            and failedSerial = "''AAAA-1111-BBBB''" and replacementSerial = "''CCCC-2222-DDDD''"
            and isoNow = "''2025-06-01T10:00:03.000Z''" and fp = "''g_1''"]
       configData_copies
         [where d = "demo_spare ''GGGG-4444-HHHH'' None" and failedSerial = "''GGGG-4444-HHHH''"
            and replacementSerial = "''CCCC-2222-DDDD''"
            and isoNow = "''2025-06-01T10:00:03.000Z''"]
       full bare
  show ?thesis by simp
qed

section \<open>The operations returned\<close>

lemma aborted_wellformed:
  assumes "aborted_at k e run" and "0 < k"
  shows "wellformed_operations (fst run)"
proof -
  let ?ops = "rr_operations (fst run)"
  from assms(1) have steps: "map op_step ?ops = [1..<Suc k]"
    and earlier: "list_all (\<lambda>op. op_status op = Completed \<and> op_error op = None) (butlast ?ops)"
    and failed: "op_status (last ?ops) = Failed" and nosucc: "\<not> rr_success (fst run)"
    by (simp_all add: aborted_at_def)
  from steps have "length (map op_step ?ops) = length [1..<Suc k]" by simp
  then have len: "length ?ops = k" by simp
  with assms(2) have ne: "?ops \<noteq> []" by auto
  from earlier have b: "list_all (\<lambda>op. op_status op = Completed) (butlast ?ops)"
    by (auto simp add: list_all_iff)
  from ne have "?ops = butlast ?ops @ [last ?ops]" by simp
  then have "set ?ops = set (butlast ?ops) \<union> {last ?ops}"
    by (metis Un_insert_right list.simps(15) set_append sup_bot.right_neutral list.set(1))
  with b failed have "list_all (\<lambda>op. op_status op \<noteq> Pending \<and> op_status op \<noteq> InProgress) ?ops"
    by (auto simp add: list_all_iff)
  with steps len b failed nosucc show ?thesis
    by (simp add: wellformed_operations_def)
qed

text \<open>
  C10. Whatever the platform answers, and also when no client is configured for the
  organization, the operations in the result of \<open>replaceDevice\<close> are numbered from
  1 without a gap, all but the last are completed, the last is completed exactly when
  the result has \<open>success: true\<close> and failed otherwise, and none is pending or in
  progress.
\<close>

theorem replaceDevice_operations_wellformed:
  "wellformed_operations
     (fst (replaceDevice api p now failedSerial replacementSerial networkId organizationId))"
proof (cases "getClient api organizationId")
  case (Inl e)
  then show ?thesis
    by (simp add: replaceDevice_def catchBlock_def wellformed_operations_def)
next
  case c: (Inr c)
  let ?run = "replaceDevice api p now failedSerial replacementSerial networkId organizationId"
  show ?thesis
  proof (cases "fst (fetchConfiguration p c networkId failedSerial)")
    case (Inl e)
    from aborted_wellformed [OF replaceDevice_step1_fails [OF c Inl]] show ?thesis by simp
  next
    case (Inr fetched)
    obtain failedDevice radio ports where fetched: "fetched = (failedDevice, radio, ports)"
      by (cases fetched)
    note f = Inr [unfolded fetched]
    show ?thesis
    proof (cases "fst (claimReplacement p c networkId replacementSerial)")
      case (Inl e)
      from aborted_wellformed [OF replaceDevice_step2_fails [OF c f Inl]] show ?thesis by simp
    next
      case (Inr u)
      then have cl: "fst (claimReplacement p c networkId replacementSerial) = Inr ()" by simp
      let ?cfg = "configData failedDevice failedSerial replacementSerial (now 3)"
      show ?thesis
      proof (cases "fst (applyConfiguration p c networkId replacementSerial ?cfg radio ports)")
        case (Inl e)
        from aborted_wellformed [OF replaceDevice_step3_fails [where now = now, OF c f cl Inl]]
        show ?thesis by simp
      next
        case (Inr u)
        then have ap: "fst (applyConfiguration p c networkId replacementSerial ?cfg radio ports)
            = Inr ()" by simp
        show ?thesis
        proof (cases "fst (removeFailedDevice p c networkId failedSerial)")
          case (Inl e)
          from aborted_wellformed [OF replaceDevice_step4_fails [where now = now, OF c f cl ap Inl]]
          show ?thesis by simp
        next
          case (Inr u)
          then have rm: "fst (removeFailedDevice p c networkId failedSerial) = Inr ()" by simp
          let ?ops = "rr_operations (fst ?run)"
          from replaceDevice_completes [where now = now, OF c f cl ap rm]
          have ok: "rr_success (fst ?run)" and steps: "map op_step ?ops = [1, 2, 3, 4]"
            and sts: "map op_status ?ops = [Completed, Completed, Completed, Completed]"
            by simp_all
          from sts obtain a b d g where ops: "?ops = [a, b, d, g]"
            by (auto simp add: map_eq_Cons_conv)
          with ok steps sts show ?thesis
            by (simp add: wellformed_operations_def upt_rec)
        qed
      qed
    qed
  qed
qed


theorem replaceDevice_operations_wellformed_witness:
  "wellformed_operations
     (fst (replaceDevice demo_api demo_platform demo_now ''AAAA-1111-BBBB'' ''CCCC-2222-DDDD''
             ''N_A1'' ''A''))
   \<and> rr_success (fst (replaceDevice demo_api demo_platform demo_now ''AAAA-1111-BBBB''
                        ''CCCC-2222-DDDD'' ''N_A1'' ''A''))
   \<and> map op_step (rr_operations (fst (replaceDevice demo_api demo_platform demo_now
                      ''AAAA-1111-BBBB'' ''CCCC-2222-DDDD'' ''N_A1'' ''A''))) = [1, 2, 3, 4]
   \<and> map op_status (rr_operations (fst (replaceDevice demo_api demo_platform demo_now
                      ''AAAA-1111-BBBB'' ''CCCC-2222-DDDD'' ''N_A1'' ''A'')))
       = [Completed, Completed, Completed, Completed]
   \<and> wellformed_operations
        (fst (replaceDevice demo_api update_rejected_platform demo_now ''AAAA-1111-BBBB''
                ''CCCC-2222-DDDD'' ''N_A1'' ''A''))
   \<and> \<not> rr_success (fst (replaceDevice demo_api update_rejected_platform demo_now
                          ''AAAA-1111-BBBB'' ''CCCC-2222-DDDD'' ''N_A1'' ''A''))
   \<and> map op_status (rr_operations (fst (replaceDevice demo_api update_rejected_platform demo_now
                      ''AAAA-1111-BBBB'' ''CCCC-2222-DDDD'' ''N_A1'' ''A'')))
       = [Completed, Completed, Failed]"
proof -
  have ok: "fst (fetchConfiguration demo_platform (''A'', ''keyA'') ''N_A1'' ''AAAA-1111-BBBB'')
        = Inr (demo_failed, None, None)"
    "fst (claimReplacement demo_platform (''A'', ''keyA'') ''N_A1'' ''CCCC-2222-DDDD'') = Inr ()"
    "fst (applyConfiguration demo_platform (''A'', ''keyA'') ''N_A1'' ''CCCC-2222-DDDD''
            (configData demo_failed ''AAAA-1111-BBBB'' ''CCCC-2222-DDDD'' (demo_now 3)) None None)
        = Inr ()"
    "fst (removeFailedDevice demo_platform (''A'', ''keyA'') ''N_A1'' ''AAAA-1111-BBBB'') = Inr ()"
    by (simp add: demo_fetch)
       (simp_all add: claimReplacement_def applyConfiguration_def removeFailedDevice_def
          demo_platform_def)
  have bad: "fst (fetchConfiguration update_rejected_platform (''A'', ''keyA'') ''N_A1''
                   ''AAAA-1111-BBBB'') = Inr (demo_failed, None, None)"
    "fst (claimReplacement update_rejected_platform (''A'', ''keyA'') ''N_A1''
            ''CCCC-2222-DDDD'') = Inr ()"
    "fst (applyConfiguration update_rejected_platform (''A'', ''keyA'') ''N_A1''
            ''CCCC-2222-DDDD''
            (configData demo_failed ''AAAA-1111-BBBB'' ''CCCC-2222-DDDD'' (demo_now 3)) None None)
        = Inl (bad_request ''Invalid address'')"
    by (simp_all add: fetchConfiguration_def claimReplacement_def applyConfiguration_def
          update_rejected_platform_def demo_platform_def)
  note done4 = replaceDevice_completes [where now = demo_now, OF demo_client ok]
  note stop3 = replaceDevice_step3_fails [where now = demo_now, OF demo_client bad]
  from stop3 have "map op_step (rr_operations (fst (replaceDevice demo_api
        update_rejected_platform demo_now ''AAAA-1111-BBBB'' ''CCCC-2222-DDDD'' ''N_A1'' ''A'')))
      = [1, 2, 3]"
    by (simp add: aborted_at_def step_numbers)
  then obtain a b d where ops: "rr_operations (fst (replaceDevice demo_api
        update_rejected_platform demo_now ''AAAA-1111-BBBB'' ''CCCC-2222-DDDD'' ''N_A1'' ''A''))
      = [a, b, d]"
    by (auto simp add: map_eq_Cons_conv)
  from stop3 ops have sts: "map op_status (rr_operations (fst (replaceDevice demo_api
        update_rejected_platform demo_now ''AAAA-1111-BBBB'' ''CCCC-2222-DDDD'' ''N_A1'' ''A'')))
      = [Completed, Completed, Failed]"
    and nosucc: "\<not> rr_success (fst (replaceDevice demo_api update_rejected_platform demo_now
                          ''AAAA-1111-BBBB'' ''CCCC-2222-DDDD'' ''N_A1'' ''A''))"
    by (simp_all add: aborted_at_def)
  from replaceDevice_operations_wellformed
         [of demo_api demo_platform demo_now "''AAAA-1111-BBBB''" "''CCCC-2222-DDDD''"
             "''N_A1''" "''A''"]
       replaceDevice_operations_wellformed
         [of demo_api update_rejected_platform demo_now "''AAAA-1111-BBBB''"
             "''CCCC-2222-DDDD''" "''N_A1''" "''A''"]
       done4 sts nosucc
  show ?thesis by simp
qed


section \<open>Error translation\<close>

text \<open>
  C9, as stated, makes the message a function of the HTTP status. The source looks at
  the error list of the response body first: a 403 response that carries such a list is
  reported with the first entry of the list, not with the fixed wording for 403.
\<close>

theorem formatErrorMessage_status_counterexample:
  "response_status \<lparr>err_message = ''Request failed with status code 403'',
      err_response = Some \<lparr>resp_status = 403, resp_errors = Some [''Invalid API key'']\<rparr>\<rparr> = Some 403
   \<and> formatErrorMessage \<lparr>err_message = ''Request failed with status code 403'',
      err_response = Some \<lparr>resp_status = 403, resp_errors = Some [''Invalid API key'']\<rparr>\<rparr>
     \<noteq> Some ''Access forbidden. Please check API key permissions for this organization.''"
  by (simp add: formatErrorMessage_def response_errors_def response_status_def)

text \<open>
  C9, amended: when the failed response carries no error list, the message is fixed by
  the status (404, 403 and 429 have their own wording, anything else passes the
  underlying message through); when it carries a non-empty error list, the message is
  the first entry of that list, whatever the status.
\<close>

theorem formatErrorMessage_by_status:
  "(response_errors e = None \<and> response_status e = Some 429 \<longrightarrow>
      formatErrorMessage e = Some ''Rate limit exceeded. Please try again in a moment.'')
   \<and> (response_errors e = None \<and> response_status e = Some 403 \<longrightarrow>
      formatErrorMessage e =
        Some ''Access forbidden. Please check API key permissions for this organization.'')
   \<and> (response_errors e = None \<and> response_status e = Some 404 \<longrightarrow>
      formatErrorMessage e =
        Some ''Resource not found. Please check the serial numbers and organization access.'')
   \<and> (response_errors e = None \<and> response_status e \<notin> {Some 404, Some 403, Some 429} \<longrightarrow>
      formatErrorMessage e = Some (err_message e))
   \<and> (\<forall>m ms. response_errors e = Some (m # ms) \<longrightarrow> formatErrorMessage e = Some m)"
  by (simp add: formatErrorMessage_def)

theorem formatErrorMessage_by_status_witness:
  "formatErrorMessage \<lparr>err_message = ''Request failed with status code 429'',
      err_response = Some \<lparr>resp_status = 429, resp_errors = None\<rparr>\<rparr>
     = Some ''Rate limit exceeded. Please try again in a moment.''
   \<and> formatErrorMessage \<lparr>err_message = ''Request failed with status code 403'',
      err_response = Some \<lparr>resp_status = 403, resp_errors = None\<rparr>\<rparr>
     = Some ''Access forbidden. Please check API key permissions for this organization.''
   \<and> formatErrorMessage \<lparr>err_message = ''Request failed with status code 404'',
      err_response = Some \<lparr>resp_status = 404, resp_errors = None\<rparr>\<rparr>
     = Some ''Resource not found. Please check the serial numbers and organization access.''
   \<and> formatErrorMessage (js_Error ''timeout of 30000ms exceeded'')
     = Some ''timeout of 30000ms exceeded''
   \<and> formatErrorMessage \<lparr>err_message = ''Request failed with status code 403'',
      err_response = Some \<lparr>resp_status = 403, resp_errors = Some [''Invalid API key'']\<rparr>\<rparr>
     = Some ''Invalid API key''"
  using
    formatErrorMessage_by_status [of "\<lparr>err_message = ''Request failed with status code 429'',
      err_response = Some \<lparr>resp_status = 429, resp_errors = None\<rparr>\<rparr>"]
    formatErrorMessage_by_status [of "\<lparr>err_message = ''Request failed with status code 403'',
      err_response = Some \<lparr>resp_status = 403, resp_errors = None\<rparr>\<rparr>"]
    formatErrorMessage_by_status [of "\<lparr>err_message = ''Request failed with status code 404'',
      err_response = Some \<lparr>resp_status = 404, resp_errors = None\<rparr>\<rparr>"]
    formatErrorMessage_by_status [of "js_Error ''timeout of 30000ms exceeded''"]
    formatErrorMessage_by_status [of "\<lparr>err_message = ''Request failed with status code 403'',
      err_response = Some \<lparr>resp_status = 403, resp_errors = Some [''Invalid API key'']\<rparr>\<rparr>"]
  by (simp add: response_errors_def response_status_def js_Error_def)

end
